theory Spec2Isabelle
  imports Main "HOL-Library.AList"
begin

section \<open>JSON values and plain objects\<close>

text \<open>
  A decoded JSON value. A JavaScript object is an association list in property order
  (the keys of one object are pairwise different); numeric literals are carried as
  integers, no operation of the program computes with them. A literal beyond the range
  of a double decodes to \<open>Infinity\<close> or \<open>-Infinity\<close>.
\<close>

datatype json =
    JNull
  | JBool bool
  | JNum int
  | JInfinity
  | JNegInfinity
  | JStr string
  | JArr "json list"
  | JObj "(string \<times> json) list"

text \<open>
  \<open>JSON.parse\<close> belongs to the platform, so every function that decodes takes the decoder
  as its first argument: \<open>Inl msg\<close> is a thrown \<open>SyntaxError\<close> with message
  \<open>msg\<close>, \<open>Inr v\<close> the decoded value.
\<close>

type_synonym decoder = "string \<Rightarrow> string + json"

subsection \<open>The lodash helpers the program calls\<close>

text \<open>\<open>_.pick(obj, paths)\<close>: the properties of \<open>obj\<close> named in \<open>paths\<close>, in the order of \<open>paths\<close>.\<close>

definition pick :: "(string \<times> 'v) list \<Rightarrow> string list \<Rightarrow> (string \<times> 'v) list" where
  "pick obj paths =
     concat (map (\<lambda>k. case map_of obj k of None \<Rightarrow> [] | Some v \<Rightarrow> [(k, v)]) paths)"

text \<open>\<open>_.omit(obj, paths)\<close>: the properties of \<open>obj\<close> not named in \<open>paths\<close>, in the order of \<open>obj\<close>.\<close>

definition omit :: "(string \<times> 'v) list \<Rightarrow> string list \<Rightarrow> (string \<times> 'v) list" where
  "omit obj paths = filter (\<lambda>(k, v). k \<notin> set paths) obj"

text \<open>
  \<open>_.mapValues(obj, f)\<close> with a callback that may throw: the properties are visited in
  order and the first exception leaves the loop.
\<close>

fun mapValues :: "('v \<Rightarrow> 'x + 'w) \<Rightarrow> (string \<times> 'v) list \<Rightarrow> 'x + (string \<times> 'w) list" where
  "mapValues f [] = Inr []"
| "mapValues f ((k, v) # rest) =
     (case f v of
        Inl e \<Rightarrow> Inl e
      | Inr w \<Rightarrow> (case mapValues f rest of Inl e \<Rightarrow> Inl e | Inr r \<Rightarrow> Inr ((k, w) # r)))"

text \<open>
  \<open>_.get(obj, key, dflt)\<close> for a plain key: the property when it is there, else
  \<open>dflt\<close> (a decoded JSON value is never \<open>undefined\<close>).
\<close>

definition get :: "(string \<times> 'v) list \<Rightarrow> string \<Rightarrow> 'v \<Rightarrow> 'v" where
  "get obj key dflt = (case map_of obj key of None \<Rightarrow> dflt | Some v \<Rightarrow> v)"

definition QUERY_OPTS :: "string list" where
  "QUERY_OPTS = [''skip'', ''limit'', ''sort'', ''page'']"

section \<open>ApiGenerator.parseQuery (src/apiGenerator.ts)\<close>

datatype ApiSyntaxError = ApiSyntaxError string string

datatype ApiResponseError = MalformedQuery ApiSyntaxError

record parsed =
  raw :: "(string \<times> json) list"
  options :: "(string \<times> json) list"
  where_clause :: json

text \<open>The callback of \<open>mapValues\<close>: decode, and wrap a \<open>SyntaxError\<close>.\<close>

definition parseValue :: "decoder \<Rightarrow> string \<Rightarrow> ApiResponseError + json" where
  "parseValue JSON_parse val =
     (case JSON_parse val of
        Inl error \<Rightarrow> Inl (MalformedQuery (ApiSyntaxError ''Invalid syntax parsing query'' error))
      | Inr v \<Rightarrow> Inr v)"

definition ApiGenerator_parseQuery ::
  "decoder \<Rightarrow> (string \<times> string) list \<Rightarrow> ApiResponseError + parsed" where
  "ApiGenerator_parseQuery JSON_parse queryObj =
     (case mapValues (parseValue JSON_parse) queryObj of
        Inl e \<Rightarrow> Inl e
      | Inr r \<Rightarrow> Inr \<lparr> raw = r,
                      options = pick r QUERY_OPTS,
                      where_clause = get r ''where'' (JObj (omit r QUERY_OPTS)) \<rparr>)"

section \<open>The Express handlers (the file that defines \<open>handlers\<close>)\<close>

subsection \<open>Its own parseQuery\<close>

text \<open>
  This file has a \<open>parseQuery\<close> of its own: the option keys are picked from the raw
  strings, nothing is decoded but the value of the key \<open>query\<close>, which then is the
  search clause. An undecoded clause is an object of JavaScript strings.

  Two calls of it can throw, and the handlers catch both. \<open>queryObj.hasOwnProperty\<close>
  is looked up on the query object itself: when the query string has a key
  \<open>hasOwnProperty\<close>, the property is a string, and calling it is a \<open>TypeError\<close>
  (the message is the one of V8). \<open>JSON.parse\<close> throws a \<open>SyntaxError\<close>. A caught
  error is its name and its message.
\<close>

datatype js_error = JsError string string

record parsedQuery =
  query :: json
  opts :: "(string \<times> string) list"

definition strings :: "(string \<times> string) list \<Rightarrow> json" where
  "strings obj = JObj (map (\<lambda>(k, v). (k, JStr v)) obj)"

definition parseQuery :: "decoder \<Rightarrow> (string \<times> string) list \<Rightarrow> js_error + parsedQuery" where
  "parseQuery JSON_parse queryObj =
     (let options = pick queryObj QUERY_OPTS;
          query = strings (omit queryObj QUERY_OPTS)
      in case map_of queryObj ''hasOwnProperty'' of
           Some own \<Rightarrow> Inl (JsError ''TypeError'' ''queryObj.hasOwnProperty is not a function'')
         | None \<Rightarrow>
             (case map_of queryObj ''query'' of
                None \<Rightarrow> Inr \<lparr> query = query, opts = options \<rparr>
              | Some val \<Rightarrow>
                  (case JSON_parse val of
                     Inl msg \<Rightarrow> Inl (JsError ''SyntaxError'' msg)
                   | Inr v \<Rightarrow> Inr \<lparr> query = v, opts = options \<rparr>)))"

subsection \<open>Request and response\<close>

text \<open>
  \<open>req.query\<close>, \<open>req.params[1]\<close> (absent when the route matched without an identifier
  segment) and \<open>req.body\<close>.
\<close>

record request =
  req_query :: "(string \<times> string) list"
  req_param1 :: "string option"
  req_body :: json

text \<open>
  The response object: the status set so far and what has been sent. \<open>res.send()\<close> and
  \<open>res.json()\<close> without an argument end the response with no content.
\<close>

datatype payload = Unsent | Empty | Text string | Json json

record response =
  statusCode :: nat
  payload :: payload

definition fresh :: response where
  "fresh = \<lparr> statusCode = 200, payload = Unsent \<rparr>"

definition res_status :: "nat \<Rightarrow> response \<Rightarrow> response" where
  "res_status n res = res\<lparr> statusCode := n \<rparr>"

definition res_send :: "response \<Rightarrow> response" where
  "res_send res = res\<lparr> payload := Empty \<rparr>"

definition res_send_text :: "string \<Rightarrow> response \<Rightarrow> response" where
  "res_send_text t res = res\<lparr> payload := Text t \<rparr>"

definition res_json :: "json \<Rightarrow> response \<Rightarrow> response" where
  "res_json v res = res\<lparr> payload := Json v \<rparr>"

definition res_json_undefined :: "response \<Rightarrow> response" where
  "res_json_undefined res = res\<lparr> payload := Empty \<rparr>"

text \<open>
  The text of the 400 answer: the template literal with the caught error, which prints as
  its name, a colon and its message.
\<close>

fun error_toString :: "js_error \<Rightarrow> string" where
  "error_toString (JsError name msg) =
     (if msg = [] then name else if name = [] then msg else name @ '': '' @ msg)"

definition badQuery :: "js_error \<Rightarrow> string" where
  "badQuery e =
     ''Query property \"query\" expected to be a valid JSON object:'' @ error_toString e"

subsection \<open>The search clause once the path identifier is folded in\<close>

text \<open>
  \<open>query.id = req.params[1]\<close> works on whatever the clause is: an object gets or
  overwrites the property; an array gets an extra property beside its elements; on
  \<open>null\<close> and, the file being in strict mode, on a number, string or boolean the
  assignment throws a \<open>TypeError\<close>, which no handler catches.
\<close>

datatype clause = Value json | ArrayWithId "json list" string

datatype exn = TypeError

fun assign_id :: "json \<Rightarrow> string \<Rightarrow> exn + clause" where
  "assign_id (JObj props) v = Inr (Value (JObj (AList.update ''id'' (JStr v) props)))"
| "assign_id (JArr xs) v = Inr (ArrayWithId xs v)"
| "assign_id _ v = Inl TypeError"

text \<open>\<open>if ( req.params[1]) { query.id = req.params[1]; }\<close>: the empty string is falsy.\<close>

definition fold_id :: "json \<Rightarrow> string option \<Rightarrow> exn + clause" where
  "fold_id q p =
     (case p of
        None \<Rightarrow> Inr (Value q)
      | Some v \<Rightarrow> if v = [] then Inr (Value q) else assign_id q v)"

text \<open>
  \<open>_.isEmpty\<close>: \<open>null\<close>, numbers and booleans have no own property; strings and
  arrays are judged by their length, objects by their own keys.
\<close>

fun isEmpty :: "clause \<Rightarrow> bool" where
  "isEmpty (Value (JObj props)) = (props = [])"
| "isEmpty (Value (JArr xs)) = (xs = [])"
| "isEmpty (Value (JStr s)) = (s = [])"
| "isEmpty (Value _) = True"
| "isEmpty (ArrayWithId xs v) = (xs = [])"

subsection \<open>The model layer\<close>

text \<open>
  The Diaspora model is outside the program: its operations are the fields of a record,
  over a store \<open>'s\<close>, entities \<open>'e\<close> and rejections \<open>'x\<close>. An asynchronous operation
  takes the store and returns the settled promise (\<open>Inl\<close> rejected, \<open>Inr\<close> resolved)
  with the new store; \<open>spawn\<close>, \<open>replaceAttributes\<close> and \<open>toObject\<close> work in memory.
  A \<open>Set\<close> is the list of its entities.
\<close>

type_synonym qopts = "(string \<times> string) list"

record ('s, 'e, 'x) model =
  model_find :: "clause \<Rightarrow> qopts \<Rightarrow> 's \<Rightarrow> ('x + 'e option) \<times> 's"
  model_findMany :: "clause \<Rightarrow> qopts \<Rightarrow> 's \<Rightarrow> ('x + 'e list) \<times> 's"
  model_update :: "clause \<Rightarrow> json \<Rightarrow> qopts \<Rightarrow> 's \<Rightarrow> ('x + 'e option) \<times> 's"
  model_updateMany :: "clause \<Rightarrow> json \<Rightarrow> qopts \<Rightarrow> 's \<Rightarrow> ('x + 'e list) \<times> 's"
  model_delete :: "clause \<Rightarrow> qopts \<Rightarrow> 's \<Rightarrow> ('x + unit) \<times> 's"
  model_deleteMany :: "clause \<Rightarrow> qopts \<Rightarrow> 's \<Rightarrow> ('x + unit) \<times> 's"
  model_spawn :: "json \<Rightarrow> 'e"
  model_spawnMany :: "json \<Rightarrow> 'e list"
  entity_persist :: "'e \<Rightarrow> 's \<Rightarrow> ('x + 'e) \<times> 's"
  entity_replaceAttributes :: "json \<Rightarrow> 'e \<Rightarrow> 'e"
  entity_toObject :: "'e \<Rightarrow> json"
  set_persist :: "'e list \<Rightarrow> 's \<Rightarrow> ('x + 'e list) \<times> 's"
  set_toObject :: "'e list \<Rightarrow> json"

text \<open>Every call of the model layer is recorded, in order, beside the store.\<close>

datatype 'e call =
    Find clause qopts
  | FindMany clause qopts
  | Update clause json qopts
  | UpdateMany clause json qopts
  | Delete clause qopts
  | DeleteMany clause qopts
  | Spawn json
  | SpawnMany json
  | Persist 'e
  | PersistSet "'e list"

type_synonym ('s, 'e) world = "'s \<times> 'e call list"

definition invoke :: "'e call \<Rightarrow> ('s \<Rightarrow> 'r \<times> 's) \<Rightarrow> ('s, 'e) world \<Rightarrow> 'r \<times> ('s, 'e) world" where
  "invoke c f w = (case f (fst w) of (r, s') \<Rightarrow> (r, (s', snd w @ [c])))"

definition logged :: "'e call \<Rightarrow> ('s, 'e) world \<Rightarrow> ('s, 'e) world" where
  "logged c w = (fst w, snd w @ [c])"

text \<open>What a handler leaves behind: the response or the uncaught exception, and the world.\<close>

type_synonym ('s, 'e) outcome = "(exn + response) \<times> ('s, 'e) world"

subsection \<open>The handlers of the singular route: \<open>_get\<close>, \<open>_post\<close>, \<open>_put\<close>, \<open>_delete\<close>\<close>

text \<open>
  Each handler takes the model, the two collaborators it reaches through the platform and
  \<open>utils\<close> (\<open>JSON.parse\<close>, \<open>respondError\<close>), the request, the response object and the
  world. A promise chain \<open>p.then(f).catch(g)\<close> is the case distinction on how \<open>p\<close>
  settled.
\<close>

text \<open>\<open>_get\<close>, lines 30 to 50: look one entity up.\<close>

definition handlers__get ::
  "('s, 'e, 'x) model \<Rightarrow> decoder \<Rightarrow> (response \<Rightarrow> 'x \<Rightarrow> response) \<Rightarrow>
     request \<Rightarrow> response \<Rightarrow> ('s, 'e) world \<Rightarrow> ('s, 'e) outcome" where
  "handlers__get M JSON_parse respondError req res w =
     (case parseQuery JSON_parse (req_query req) of
        Inl e \<Rightarrow> (Inr (res_send_text (badQuery e) (res_status 400 res)), w)
      | Inr parsed \<Rightarrow>
          (case fold_id (query parsed) (req_param1 req) of
             Inl t \<Rightarrow> (Inl t, w)
           | Inr q \<Rightarrow>
               (case invoke (Find q (opts parsed)) (model_find M q (opts parsed)) w of
                  (Inl err, w') \<Rightarrow> (Inr (respondError res err), w')
                | (Inr entity, w') \<Rightarrow>
                    (case entity of
                         None \<Rightarrow> (Inr (res_send (res_status 404 res)), w')
                       | Some e \<Rightarrow> (Inr (res_json (entity_toObject M e) res), w')))))"

text \<open>\<open>_post\<close>, lines 51 to 78: create, or update in part.\<close>

definition handlers__post ::
  "('s, 'e, 'x) model \<Rightarrow> decoder \<Rightarrow> (response \<Rightarrow> 'x \<Rightarrow> response) \<Rightarrow>
     request \<Rightarrow> response \<Rightarrow> ('s, 'e) world \<Rightarrow> ('s, 'e) outcome" where
  "handlers__post M JSON_parse respondError req res w =
     (case parseQuery JSON_parse (req_query req) of
        Inl e \<Rightarrow> (Inr (res_send_text (badQuery e) (res_status 400 res)), w)
      | Inr parsed \<Rightarrow>
          (case fold_id (query parsed) (req_param1 req) of
             Inl t \<Rightarrow> (Inl t, w)
           | Inr q \<Rightarrow>
               (let update = req_body req in
                if isEmpty q then
                  (let spawned = model_spawn M update in
                   case invoke (Persist spawned) (entity_persist M spawned)
                          (logged (Spawn update) w) of
                     (Inl err, w') \<Rightarrow> (Inr (respondError res err), w')
                   | (Inr entity, w') \<Rightarrow>
                       (Inr (res_json (entity_toObject M entity) (res_status 201 res)), w'))
                else
                  (case invoke (Update q update (opts parsed))
                          (model_update M q update (opts parsed)) w of
                     (Inl err, w') \<Rightarrow> (Inr (respondError res err), w')
                   | (Inr entity, w') \<Rightarrow>
                       (case entity of
                          None \<Rightarrow> (Inr (res_send (res_status 404 res)), w')
                        | Some e \<Rightarrow> (Inr (res_json (entity_toObject M e) res), w'))))))"

text \<open>\<open>_put\<close>, lines 79 to 109: create, or replace the attributes.\<close>

definition handlers__put ::
  "('s, 'e, 'x) model \<Rightarrow> decoder \<Rightarrow> (response \<Rightarrow> 'x \<Rightarrow> response) \<Rightarrow>
     request \<Rightarrow> response \<Rightarrow> ('s, 'e) world \<Rightarrow> ('s, 'e) outcome" where
  "handlers__put M JSON_parse respondError req res w =
     (case parseQuery JSON_parse (req_query req) of
        Inl e \<Rightarrow> (Inr (res_send_text (badQuery e) (res_status 400 res)), w)
      | Inr parsed \<Rightarrow>
          (case fold_id (query parsed) (req_param1 req) of
             Inl t \<Rightarrow> (Inl t, w)
           | Inr q \<Rightarrow>
               (let update = req_body req in
                if isEmpty q then
                  (let spawned = model_spawn M update in
                   case invoke (Persist spawned) (entity_persist M spawned)
                          (logged (Spawn update) w) of
                     (Inl err, w') \<Rightarrow> (Inr (respondError res err), w')
                   | (Inr entity, w') \<Rightarrow>
                       (Inr (res_json (entity_toObject M entity) (res_status 201 res)), w'))
                else
                  (case invoke (Find q (opts parsed)) (model_find M q (opts parsed)) w of
                     (Inl err, w') \<Rightarrow> (Inr (respondError res err), w')
                   | (Inr entity, w') \<Rightarrow>
                       (case entity of
                          None \<Rightarrow> (Inr (res_send (res_status 404 res)), w')
                        | Some e \<Rightarrow>
                            (let replaced = entity_replaceAttributes M update e in
                             case invoke (Persist replaced) (entity_persist M replaced) w' of
                               (Inl err, w'') \<Rightarrow> (Inr (respondError res err), w'')
                             | (Inr entity, w'') \<Rightarrow> (Inr (res_json (entity_toObject M entity) res), w'')))))))"

text \<open>\<open>_delete\<close>, lines 110 to 126: the resolved value of \<open>delete\<close> is not read.\<close>

definition handlers__delete ::
  "('s, 'e, 'x) model \<Rightarrow> decoder \<Rightarrow> (response \<Rightarrow> 'x \<Rightarrow> response) \<Rightarrow>
     request \<Rightarrow> response \<Rightarrow> ('s, 'e) world \<Rightarrow> ('s, 'e) outcome" where
  "handlers__delete M JSON_parse respondError req res w =
     (case parseQuery JSON_parse (req_query req) of
        Inl e \<Rightarrow> (Inr (res_send_text (badQuery e) (res_status 400 res)), w)
      | Inr parsed \<Rightarrow>
          (case fold_id (query parsed) (req_param1 req) of
             Inl t \<Rightarrow> (Inl t, w)
           | Inr q \<Rightarrow>
               (case invoke (Delete q (opts parsed)) (model_delete M q (opts parsed)) w of
                  (Inl err, w') \<Rightarrow> (Inr (respondError res err), w')
                | (Inr entity, w') \<Rightarrow> (Inr (res_json_undefined res), w'))))"

subsection \<open>The handlers of the plural route: \<open>get\<close>, \<open>post\<close>, \<open>put\<close>, \<open>delete\<close>\<close>

text \<open>\<open>get\<close>, lines 128 to 144: an empty set sets the status 404 and is still serialised.\<close>

definition handlers_get ::
  "('s, 'e, 'x) model \<Rightarrow> decoder \<Rightarrow> (response \<Rightarrow> 'x \<Rightarrow> response) \<Rightarrow>
     request \<Rightarrow> response \<Rightarrow> ('s, 'e) world \<Rightarrow> ('s, 'e) outcome" where
  "handlers_get M JSON_parse respondError req res w =
     (case parseQuery JSON_parse (req_query req) of
        Inl e \<Rightarrow> (Inr (res_send_text (badQuery e) (res_status 400 res)), w)
      | Inr parsed \<Rightarrow>
          (let q = Value (query parsed) in
              (case invoke (FindMany q (opts parsed)) (model_findMany M q (opts parsed)) w of
                  (Inl err, w') \<Rightarrow> (Inr (respondError res err), w')
                | (Inr entities, w') \<Rightarrow>
                    (Inr (res_json (set_toObject M entities)
                            (if length entities = 0 then res_status 404 res else res)), w'))))"

text \<open>\<open>post\<close>, lines 145 to 168.\<close>

definition handlers_post ::
  "('s, 'e, 'x) model \<Rightarrow> decoder \<Rightarrow> (response \<Rightarrow> 'x \<Rightarrow> response) \<Rightarrow>
     request \<Rightarrow> response \<Rightarrow> ('s, 'e) world \<Rightarrow> ('s, 'e) outcome" where
  "handlers_post M JSON_parse respondError req res w =
     (case parseQuery JSON_parse (req_query req) of
        Inl e \<Rightarrow> (Inr (res_send_text (badQuery e) (res_status 400 res)), w)
      | Inr parsed \<Rightarrow>
          (let q = Value (query parsed) in
              (let update = req_body req in
                if isEmpty q then
                  (let spawned = model_spawnMany M update in
                   case invoke (PersistSet spawned) (set_persist M spawned)
                          (logged (SpawnMany update) w) of
                     (Inl err, w') \<Rightarrow> (Inr (respondError res err), w')
                   | (Inr entities, w') \<Rightarrow>
                       (Inr (res_json (set_toObject M entities) (res_status 201 res)), w'))
                else
                  (case invoke (UpdateMany q update (opts parsed))
                          (model_updateMany M q update (opts parsed)) w of
                     (Inl err, w') \<Rightarrow> (Inr (respondError res err), w')
                   | (Inr entities, w') \<Rightarrow>
                       (Inr (res_json (set_toObject M entities)
                               (if length entities = 0 then res_status 404 res else res)), w')))))"

text \<open>\<open>put\<close>, lines 169 to 197: \<open>forEach\<close> replaces the attributes of every entity found.\<close>

definition handlers_put ::
  "('s, 'e, 'x) model \<Rightarrow> decoder \<Rightarrow> (response \<Rightarrow> 'x \<Rightarrow> response) \<Rightarrow>
     request \<Rightarrow> response \<Rightarrow> ('s, 'e) world \<Rightarrow> ('s, 'e) outcome" where
  "handlers_put M JSON_parse respondError req res w =
     (case parseQuery JSON_parse (req_query req) of
        Inl e \<Rightarrow> (Inr (res_send_text (badQuery e) (res_status 400 res)), w)
      | Inr parsed \<Rightarrow>
          (let q = Value (query parsed) in
              (let update = req_body req in
                if isEmpty q then
                  (let spawned = model_spawnMany M update in
                   case invoke (PersistSet spawned) (set_persist M spawned)
                          (logged (SpawnMany update) w) of
                     (Inl err, w') \<Rightarrow> (Inr (respondError res err), w')
                   | (Inr entities, w') \<Rightarrow>
                       (Inr (res_json (set_toObject M entities) (res_status 201 res)), w'))
                else
                  (case invoke (FindMany q (opts parsed)) (model_findMany M q (opts parsed)) w of
                     (Inl err, w1) \<Rightarrow> (Inr (respondError res err), w1)
                   | (Inr found, w1) \<Rightarrow>
                       (let replaced = map (entity_replaceAttributes M update) found in
                        case invoke (PersistSet replaced) (set_persist M replaced) w1 of
                          (Inl err, w') \<Rightarrow> (Inr (respondError res err), w')
                        | (Inr entities, w') \<Rightarrow>
                            (Inr (res_json (set_toObject M entities)
                                    (if length entities = 0 then res_status 404 res else res)), w'))))))"

text \<open>\<open>delete\<close>, lines 198 to 211.\<close>

definition handlers_delete ::
  "('s, 'e, 'x) model \<Rightarrow> decoder \<Rightarrow> (response \<Rightarrow> 'x \<Rightarrow> response) \<Rightarrow>
     request \<Rightarrow> response \<Rightarrow> ('s, 'e) world \<Rightarrow> ('s, 'e) outcome" where
  "handlers_delete M JSON_parse respondError req res w =
     (case parseQuery JSON_parse (req_query req) of
        Inl e \<Rightarrow> (Inr (res_send_text (badQuery e) (res_status 400 res)), w)
      | Inr parsed \<Rightarrow>
          (let q = Value (query parsed) in
              (case invoke (DeleteMany q (opts parsed)) (model_deleteMany M q (opts parsed)) w of
                  (Inl err, w') \<Rightarrow> (Inr (respondError res err), w')
                | (Inr entities, w') \<Rightarrow> (Inr (res_json_undefined res), w'))))"

subsection \<open>The router: which handler answers which verb on which route\<close>

datatype route = Singular | Plural

datatype verb = GET | POST | PUT | DELETE

fun route_handler ::
  "route \<Rightarrow> verb \<Rightarrow> ('s, 'e, 'x) model \<Rightarrow> decoder \<Rightarrow> (response \<Rightarrow> 'x \<Rightarrow> response) \<Rightarrow>
     request \<Rightarrow> response \<Rightarrow> ('s, 'e) world \<Rightarrow> ('s, 'e) outcome" where
  "route_handler Singular GET = handlers__get"
| "route_handler Singular POST = handlers__post"
| "route_handler Singular PUT = handlers__put"
| "route_handler Singular DELETE = handlers__delete"
| "route_handler Plural GET = handlers_get"
| "route_handler Plural POST = handlers_post"
| "route_handler Plural PUT = handlers_put"
| "route_handler Plural DELETE = handlers_delete"

section \<open>Concrete collaborators for the examples\<close>

subsection \<open>A decoder and an encoder\<close>

text \<open>
  The examples need one decoder to run. \<open>json_parse\<close> reads the JSON grammar without
  fractions, negative exponents and escape sequences other than \<open>\"\<close> and
  \<open>\\\<close>; on a text outside this fragment it reports an error where \<open>JSON.parse\<close>
  may decode, so it is applied to texts of the fragment only. The general theorems hold
  for every decoder.
\<close>

definition is_ws :: "char \<Rightarrow> bool" where
  "is_ws c = (c = CHR '' '' \<or> c = CHR 0x09 \<or> c = CHR 0x0A \<or> c = CHR 0x0D)"

definition is_digit :: "char \<Rightarrow> bool" where
  "is_digit c = (48 \<le> (of_char c :: nat) \<and> (of_char c :: nat) \<le> 57)"

definition digit_of :: "char \<Rightarrow> nat" where
  "digit_of c = of_char c - 48"

fun skip_ws :: "string \<Rightarrow> string" where
  "skip_ws [] = []"
| "skip_ws (c # cs) = (if is_ws c then skip_ws cs else c # cs)"

fun read_digits :: "nat \<Rightarrow> string \<Rightarrow> nat \<times> string" where
  "read_digits acc [] = (acc, [])"
| "read_digits acc (c # cs) =
     (if is_digit c then read_digits (acc * 10 + digit_of c) cs else (acc, c # cs))"

text \<open>A number of the fragment: digits without a leading zero, read after the sign.\<close>

definition read_nat :: "string \<Rightarrow> (nat \<times> string) option" where
  "read_nat cs =
     (case cs of
        [] \<Rightarrow> None
      | c # r \<Rightarrow>
          if \<not> is_digit c then None
          else if c = CHR ''0'' then
            (case r of [] \<Rightarrow> Some (0, []) | d # _ \<Rightarrow> if is_digit d then None else Some (0, r))
          else Some (read_digits 0 cs))"

text \<open>
  An exponent part, when there is one: \<open>e\<close> or \<open>E\<close>, an optional \<open>+\<close>, digits.
\<close>

definition read_exponent :: "string \<Rightarrow> (nat \<times> string) option" where
  "read_exponent cs =
     (case cs of
        [] \<Rightarrow> Some (0, [])
      | c # r \<Rightarrow>
          if c = CHR ''e'' \<or> c = CHR ''E'' then
            (let r' = (case r of [] \<Rightarrow> [] | d # r'' \<Rightarrow> if d = CHR ''+'' then r'' else r)
             in case r' of
                  [] \<Rightarrow> None
                | d # _ \<Rightarrow> if is_digit d then Some (read_digits 0 r') else None)
          else Some (0, cs))"

text \<open>
  The value of the literal \<open>m\<close>e\<open>e\<close>: the largest double is \<open>2^1024 - 2^971\<close>, and a
  literal from \<open>2^1024 - 2^970\<close> on rounds to infinity. With an exponent above 308 and
  digits that are not all zero the literal is at least \<open>10^309\<close>, which is beyond that
  bound.
\<close>

definition overflows :: "nat \<Rightarrow> nat \<Rightarrow> bool" where
  "overflows m e =
     (if m = 0 then False
      else if 308 < e then True
      else 2 ^ 1024 - 2 ^ 970 \<le> m * 10 ^ e)"

definition number_of :: "bool \<Rightarrow> nat \<Rightarrow> nat \<Rightarrow> json" where
  "number_of negative m e =
     (if overflows m e
      then (if negative then JNegInfinity else JInfinity)
      else JNum (if negative then - int (m * 10 ^ e) else int (m * 10 ^ e)))"

definition read_number :: "bool \<Rightarrow> string \<Rightarrow> (json \<times> string) option" where
  "read_number negative cs =
     (case read_nat cs of
        None \<Rightarrow> None
      | Some (m, rest) \<Rightarrow>
          (case read_exponent rest of
             None \<Rightarrow> None
           | Some (e, rest') \<Rightarrow> Some (number_of negative m e, rest')))"

text \<open>The characters of a string literal, read after the opening quote.\<close>

fun read_string :: "string \<Rightarrow> (string \<times> string) option" where
  "read_string [] = None"
| "read_string [c] = (if c = CHR 0x22 then Some ([], []) else None)"
| "read_string (c # d # cs) =
     (if c = CHR 0x22 then Some ([], d # cs)
      else if c = CHR 0x5C then
        (if d = CHR 0x22 \<or> d = CHR 0x5C
         then map_option (\<lambda>(s, r). (d # s, r)) (read_string cs) else None)
      else if (of_char c :: nat) < 32 then None
      else map_option (\<lambda>(s, r). (c # s, r)) (read_string (d # cs)))"

text \<open>A repeated key keeps its first place and its last value, as in JavaScript.\<close>

definition object_of :: "(string \<times> json) list \<Rightarrow> json" where
  "object_of members = JObj (foldl (\<lambda>acc (k, v). AList.update k v acc) [] members)"

fun read_value :: "nat \<Rightarrow> string \<Rightarrow> (json \<times> string) option"
  and read_elements :: "nat \<Rightarrow> string \<Rightarrow> (json list \<times> string) option"
  and read_members :: "nat \<Rightarrow> string \<Rightarrow> ((string \<times> json) list \<times> string) option" where
  "read_value 0 cs = None"
| "read_value (Suc n) cs =
     (case skip_ws cs of
        [] \<Rightarrow> None
      | c # r \<Rightarrow>
          if c = CHR ''{'' then
            (case skip_ws r of
               [] \<Rightarrow> None
             | d # r' \<Rightarrow>
                 if d = CHR ''}'' then Some (JObj [], r')
                 else map_option (\<lambda>(ms, rest). (object_of ms, rest)) (read_members n (d # r')))
          else if c = CHR ''['' then
            (case skip_ws r of
               [] \<Rightarrow> None
             | d # r' \<Rightarrow>
                 if d = CHR '']'' then Some (JArr [], r')
                 else map_option (\<lambda>(xs, rest). (JArr xs, rest)) (read_elements n (d # r')))
          else if c = CHR 0x22 then map_option (\<lambda>(s, rest). (JStr s, rest)) (read_string r)
          else if c = CHR ''-'' then read_number True r
          else if is_digit c then read_number False (c # r)
          else if take 4 (c # r) = ''null'' then Some (JNull, drop 3 r)
          else if take 4 (c # r) = ''true'' then Some (JBool True, drop 3 r)
          else if take 5 (c # r) = ''false'' then Some (JBool False, drop 4 r)
          else None)"
| "read_elements 0 cs = None"
| "read_elements (Suc n) cs =
     (case read_value n cs of
        None \<Rightarrow> None
      | Some (x, rest) \<Rightarrow>
          (case skip_ws rest of
             [] \<Rightarrow> None
           | c # r \<Rightarrow>
               if c = CHR '']'' then Some ([x], r)
               else if c = CHR '','' then
                 map_option (\<lambda>(xs, rest'). (x # xs, rest')) (read_elements n r)
               else None))"
| "read_members 0 cs = None"
| "read_members (Suc n) cs =
     (case skip_ws cs of
        [] \<Rightarrow> None
      | q # r \<Rightarrow>
          if q \<noteq> CHR 0x22 then None
          else
            (case read_string r of
               None \<Rightarrow> None
             | Some (k, rest) \<Rightarrow>
                 (case skip_ws rest of
                    [] \<Rightarrow> None
                  | c # r' \<Rightarrow>
                      if c \<noteq> CHR '':'' then None
                      else
                        (case read_value n r' of
                           None \<Rightarrow> None
                         | Some (v, rest') \<Rightarrow>
                             (case skip_ws rest' of
                                [] \<Rightarrow> None
                              | e # r'' \<Rightarrow>
                                  if e = CHR ''}'' then Some ([(k, v)], r'')
                                  else if e = CHR '','' then
                                    map_option (\<lambda>(ms, rest''). ((k, v) # ms, rest''))
                                      (read_members n r'')
                                  else None)))))"

text \<open>Every step of the reader consumes a character, so the length of the text bounds the depth.\<close>

definition json_parse :: decoder where
  "json_parse s =
     (case read_value (Suc (length s)) s of
        None \<Rightarrow> Inl ''Unexpected token in JSON''
      | Some (v, rest) \<Rightarrow>
          if skip_ws rest = [] then Inr v else Inl ''Unexpected token in JSON'')"

text \<open>
  The encoder, \<open>JSON.stringify\<close> on the same fragment: an integer is written in
  digits, as JavaScript does below \<open>10^21\<close>, and an infinity is written \<open>null\<close>.
\<close>

definition digit_char :: "nat \<Rightarrow> char" where
  "digit_char d = ''0123456789'' ! d"

fun show_nat :: "nat \<Rightarrow> string" where
  "show_nat n =
     (if n < 10 then [digit_char n] else show_nat (n div 10) @ [digit_char (n mod 10)])"

definition show_int :: "int \<Rightarrow> string" where
  "show_int i = (if i < 0 then CHR ''-'' # show_nat (nat (- i)) else show_nat (nat i))"

definition quote :: "string \<Rightarrow> string" where
  "quote s =
     CHR 0x22 # concat (map (\<lambda>c. if c = CHR 0x22 \<or> c = CHR 0x5C then [CHR 0x5C, c] else [c]) s)
       @ [CHR 0x22]"

fun commas :: "string list \<Rightarrow> string" where
  "commas [] = []"
| "commas [x] = x"
| "commas (x # y # xs) = x @ '','' @ commas (y # xs)"

fun json_stringify :: "json \<Rightarrow> string"
  and stringify_elements :: "json list \<Rightarrow> string list"
  and stringify_members :: "(string \<times> json) list \<Rightarrow> string list" where
  "json_stringify JNull = ''null''"
| "json_stringify (JBool b) = (if b then ''true'' else ''false'')"
| "json_stringify (JNum i) = show_int i"
| "json_stringify JInfinity = ''null''"
| "json_stringify JNegInfinity = ''null''"
| "json_stringify (JStr s) = quote s"
| "json_stringify (JArr xs) = ''['' @ commas (stringify_elements xs) @ '']''"
| "json_stringify (JObj ms) = ''{'' @ commas (stringify_members ms) @ ''}''"
| "stringify_elements [] = []"
| "stringify_elements (x # xs) = json_stringify x # stringify_elements xs"
| "stringify_members [] = []"
| "stringify_members ((k, v) # ms) = (quote k @ '':'' @ json_stringify v) # stringify_members ms"

subsection \<open>A model layer in memory\<close>

text \<open>
  A small stand-in for a Diaspora model: the store is a counter for fresh identifiers and
  the persisted entities; an entity has its identifier once persisted. A clause that is an
  object selects the entities that agree with each of its properties (\<open>id\<close> is the
  identifier); any other clause selects every entity. No operation rejects.
\<close>

record entity =
  ident :: "string option"
  attributes :: "(string \<times> json) list"

type_synonym store = "nat \<times> entity list"

definition agrees :: "entity \<Rightarrow> string \<times> json \<Rightarrow> bool" where
  "agrees e p =
     (if fst p = ''id'' then map_option JStr (ident e) = Some (snd p)
      else map_of (attributes e) (fst p) = Some (snd p))"

fun matches :: "clause \<Rightarrow> entity \<Rightarrow> bool" where
  "matches (Value (JObj props)) e = list_all (agrees e) props"
| "matches _ e = True"

fun properties :: "json \<Rightarrow> (string \<times> json) list" where
  "properties (JObj props) = props"
| "properties _ = []"

definition merged :: "json \<Rightarrow> entity \<Rightarrow> entity" where
  "merged update e =
     e\<lparr> attributes := foldl (\<lambda>acc (k, v). AList.update k v acc) (attributes e) (properties update) \<rparr>"

definition mem_replaceAttributes :: "json \<Rightarrow> entity \<Rightarrow> entity" where
  "mem_replaceAttributes update e = e\<lparr> attributes := properties update \<rparr>"

definition mem_toObject :: "entity \<Rightarrow> json" where
  "mem_toObject e =
     JObj ((case ident e of None \<Rightarrow> [] | Some i \<Rightarrow> [(''id'', JStr i)]) @ attributes e)"

definition mem_spawn :: "json \<Rightarrow> entity" where
  "mem_spawn body = \<lparr> ident = None, attributes = properties body \<rparr>"

fun mem_spawnMany :: "json \<Rightarrow> entity list" where
  "mem_spawnMany (JArr xs) = map mem_spawn xs"
| "mem_spawnMany body = [mem_spawn body]"

definition mem_find :: "clause \<Rightarrow> qopts \<Rightarrow> store \<Rightarrow> (string + entity option) \<times> store" where
  "mem_find q os st = (Inr (List.find (matches q) (snd st)), st)"

definition mem_findMany :: "clause \<Rightarrow> qopts \<Rightarrow> store \<Rightarrow> (string + entity list) \<times> store" where
  "mem_findMany q os st = (Inr (filter (matches q) (snd st)), st)"

fun update_first :: "clause \<Rightarrow> json \<Rightarrow> entity list \<Rightarrow> entity option \<times> entity list" where
  "update_first q u [] = (None, [])"
| "update_first q u (e # es) =
     (if matches q e then (Some (merged u e), merged u e # es)
      else (case update_first q u es of (r, es') \<Rightarrow> (r, e # es')))"

definition mem_update ::
  "clause \<Rightarrow> json \<Rightarrow> qopts \<Rightarrow> store \<Rightarrow> (string + entity option) \<times> store" where
  "mem_update q u os st =
     (case update_first q u (snd st) of (r, es) \<Rightarrow> (Inr r, (fst st, es)))"

definition mem_updateMany ::
  "clause \<Rightarrow> json \<Rightarrow> qopts \<Rightarrow> store \<Rightarrow> (string + entity list) \<times> store" where
  "mem_updateMany q u os st =
     (Inr (map (merged u) (filter (matches q) (snd st))),
      (fst st, map (\<lambda>e. if matches q e then merged u e else e) (snd st)))"

fun delete_first :: "clause \<Rightarrow> entity list \<Rightarrow> entity list" where
  "delete_first q [] = []"
| "delete_first q (e # es) = (if matches q e then es else e # delete_first q es)"

definition mem_delete :: "clause \<Rightarrow> qopts \<Rightarrow> store \<Rightarrow> (string + unit) \<times> store" where
  "mem_delete q os st = (Inr (), (fst st, delete_first q (snd st)))"

definition mem_deleteMany :: "clause \<Rightarrow> qopts \<Rightarrow> store \<Rightarrow> (string + unit) \<times> store" where
  "mem_deleteMany q os st = (Inr (), (fst st, filter (\<lambda>e. \<not> matches q e) (snd st)))"

definition mem_persist :: "entity \<Rightarrow> store \<Rightarrow> (string + entity) \<times> store" where
  "mem_persist e st =
     (case ident e of
        None \<Rightarrow>
          (let e' = e\<lparr> ident := Some (show_nat (fst st)) \<rparr>
           in (Inr e', (Suc (fst st), snd st @ [e'])))
      | Some i \<Rightarrow> (Inr e, (fst st, map (\<lambda>r. if ident r = Some i then e else r) (snd st))))"

fun persist_all :: "entity list \<Rightarrow> store \<Rightarrow> entity list \<times> store" where
  "persist_all [] st = ([], st)"
| "persist_all (e # es) st =
     (case mem_persist e st of
        (r, st') \<Rightarrow>
          (case persist_all es st' of
             (rs, st'') \<Rightarrow> ((case r of Inl _ \<Rightarrow> e | Inr e' \<Rightarrow> e') # rs, st'')))"

definition mem_persistSet :: "entity list \<Rightarrow> store \<Rightarrow> (string + entity list) \<times> store" where
  "mem_persistSet es st = (case persist_all es st of (rs, st') \<Rightarrow> (Inr rs, st'))"

definition mem_model :: "(store, entity, string) model" where
  "mem_model =
     \<lparr> model_find = mem_find,
       model_findMany = mem_findMany,
       model_update = mem_update,
       model_updateMany = mem_updateMany,
       model_delete = mem_delete,
       model_deleteMany = mem_deleteMany,
       model_spawn = mem_spawn,
       model_spawnMany = mem_spawnMany,
       entity_persist = mem_persist,
       entity_replaceAttributes = mem_replaceAttributes,
       entity_toObject = mem_toObject,
       set_persist = mem_persistSet,
       set_toObject = (\<lambda>es. JArr (map mem_toObject es)) \<rparr>"

text \<open>A stand-in for \<open>respondError\<close> of \<open>utils\<close>: every rejection is answered 500.\<close>

definition mem_respondError :: "response \<Rightarrow> string \<Rightarrow> response" where
  "mem_respondError res err = res_send_text err (res_status 500 res)"

text \<open>Two stores for the examples: an empty one, and one holding a single entity.\<close>

definition empty_store :: store where
  "empty_store = (0, [])"

definition one_entity_store :: store where
  "one_entity_store =
     (2, [\<lparr> ident = Some ''1'', attributes = [(''name'', JStr ''a''), (''age'', JNum 5)] \<rparr>])"

section \<open>Notions used to state the properties\<close>

text \<open>The decoded value of a key of the query string, when the key is there and decodes.\<close>

definition decoded :: "decoder \<Rightarrow> (string \<times> string) list \<Rightarrow> string \<Rightarrow> json option" where
  "decoded JSON_parse queryObj k =
     (case map_of queryObj k of
        None \<Rightarrow> None
      | Some val \<Rightarrow> (case JSON_parse val of Inl _ \<Rightarrow> None | Inr v \<Rightarrow> Some v))"

text \<open>
  A parse result written back as a query string: every option under its key and the
  search clause under \<open>where\<close>, each value encoded by \<open>JSON.stringify\<close>.
\<close>

definition reencode :: "(json \<Rightarrow> string) \<Rightarrow> parsed \<Rightarrow> (string \<times> string) list" where
  "reencode JSON_stringify r =
     map (\<lambda>(k, v). (k, JSON_stringify v)) (options r)
       @ [(''where'', JSON_stringify (where_clause r))]"

text \<open>
  The other way to write a parse result back: the options and the properties of the
  search clause side by side, each under its own key (a clause that is not an object has
  no key to write).
\<close>

definition reencode_flat :: "(json \<Rightarrow> string) \<Rightarrow> parsed \<Rightarrow> (string \<times> string) list" where
  "reencode_flat JSON_stringify r =
     map (\<lambda>(k, v). (k, JSON_stringify v)) (options r @ properties (where_clause r))"

section \<open>Facts about the helpers\<close>

lemmas handler_defs = handlers__get_def handlers__post_def handlers__put_def handlers__delete_def
  handlers_get_def handlers_post_def handlers_put_def handlers_delete_def

lemmas response_defs = fresh_def res_status_def res_send_def res_send_text_def res_json_def
  res_json_undefined_def

lemmas world_defs = invoke_def logged_def

lemmas json_eval = json_parse_def is_ws_def is_digit_def digit_of_def read_nat_def object_of_def
  read_exponent_def read_number_def number_of_def overflows_def
  show_int_def quote_def digit_char_def

lemmas query_eval = ApiGenerator_parseQuery_def parseValue_def parseQuery_def pick_def omit_def
  get_def QUERY_OPTS_def strings_def fold_id_def decoded_def reencode_def

lemmas mem_eval = mem_model_def mem_find_def mem_findMany_def mem_update_def mem_updateMany_def
  mem_delete_def mem_deleteMany_def mem_spawn_def mem_persist_def mem_persistSet_def
  mem_replaceAttributes_def mem_toObject_def mem_respondError_def agrees_def merged_def
  empty_store_def one_entity_store_def

subsection \<open>mapValues\<close>

lemma mapValues_Inr_keys: "mapValues f xs = Inr r \<Longrightarrow> map fst r = map fst xs"
  by (induction xs arbitrary: r) (auto split: sum.splits)

lemma mapValues_Inr_lookup:
  "mapValues f xs = Inr r \<Longrightarrow>
     map_of r k =
       (case map_of xs k of
          None \<Rightarrow> None
        | Some v \<Rightarrow> (case f v of Inl _ \<Rightarrow> None | Inr w \<Rightarrow> Some w))"
  by (induction xs arbitrary: r) (auto split: sum.splits)

lemma mapValues_Inr_all:
  "mapValues f xs = Inr r \<Longrightarrow> (k, v) \<in> set xs \<Longrightarrow> \<exists>w. f v = Inr w"
  by (induction xs arbitrary: r) (auto split: sum.splits)

lemma mapValues_Inl_iff:
  "(\<exists>e. mapValues f xs = Inl e) \<longleftrightarrow> (\<exists>v \<in> snd ` set xs. \<exists>e. f v = Inl e)"
  by (induction xs) (auto split: sum.splits)

lemma mapValues_append:
  "mapValues f (xs @ ys) =
     (case mapValues f xs of
        Inl e \<Rightarrow> Inl e
      | Inr a \<Rightarrow> (case mapValues f ys of Inl e \<Rightarrow> Inl e | Inr b \<Rightarrow> Inr (a @ b)))"
  by (induction xs) (auto split: sum.splits)

lemma mapValues_inverse:
  "\<forall>v \<in> snd ` set xs. f (g v) = Inr v \<Longrightarrow>
     mapValues f (map (\<lambda>(k, v). (k, g v)) xs) = Inr xs"
  by (induction xs) auto

lemma parseValue_Inl_iff:
  "(\<exists>e. parseValue JSON_parse val = Inl e) \<longleftrightarrow> (\<exists>msg. JSON_parse val = Inl msg)"
  by (cases "JSON_parse val") (simp_all add: parseValue_def)

lemma mapValues_Inl_first:
  "mapValues f xs = Inl e \<longleftrightarrow>
     (\<exists>pre k v post. xs = pre @ (k, v) # post
        \<and> (\<forall>u \<in> snd ` set pre. \<exists>w. f u = Inr w) \<and> f v = Inl e)"
proof (induction xs)
  case Nil
  then show ?case by simp
next
  case (Cons x xs)
  obtain k0 v0 where x: "x = (k0, v0)"
    by (cases x)
  show ?case
  proof (cases "f v0")
    case (Inl e0)
    have "(\<exists>pre k v post. x # xs = pre @ (k, v) # post
        \<and> (\<forall>u \<in> snd ` set pre. \<exists>w. f u = Inr w) \<and> f v = Inl e) \<longleftrightarrow> e = e0"
    proof
      assume "\<exists>pre k v post. x # xs = pre @ (k, v) # post
        \<and> (\<forall>u \<in> snd ` set pre. \<exists>w. f u = Inr w) \<and> f v = Inl e"
      then obtain pre k v post where *: "x # xs = pre @ (k, v) # post"
        "\<forall>u \<in> snd ` set pre. \<exists>w. f u = Inr w" "f v = Inl e"
        by blast
      show "e = e0"
      proof (cases pre)
        case Nil
        with * x Inl show ?thesis by simp
      next
        case (Cons y ys)
        with * x have "v0 \<in> snd ` set pre" by force
        with *(2) Inl show ?thesis by force
      qed
    next
      assume "e = e0"
      then have "x # xs = [] @ (k0, v0) # xs \<and> (\<forall>u \<in> snd ` set []. \<exists>w. f u = Inr w)
          \<and> f v0 = Inl e"
        using x Inl by simp
      then show "\<exists>pre k v post. x # xs = pre @ (k, v) # post
        \<and> (\<forall>u \<in> snd ` set pre. \<exists>w. f u = Inr w) \<and> f v = Inl e"
        by blast
    qed
    moreover have "mapValues f (x # xs) = Inl e \<longleftrightarrow> e = e0"
      using x Inl by auto
    ultimately show ?thesis
      by (simp only:)
  next
    case (Inr w0)
    have "(\<exists>pre k v post. x # xs = pre @ (k, v) # post
        \<and> (\<forall>u \<in> snd ` set pre. \<exists>w. f u = Inr w) \<and> f v = Inl e) \<longleftrightarrow>
      (\<exists>pre k v post. xs = pre @ (k, v) # post
        \<and> (\<forall>u \<in> snd ` set pre. \<exists>w. f u = Inr w) \<and> f v = Inl e)"
    proof
      assume "\<exists>pre k v post. x # xs = pre @ (k, v) # post
        \<and> (\<forall>u \<in> snd ` set pre. \<exists>w. f u = Inr w) \<and> f v = Inl e"
      then obtain pre k v post where *: "x # xs = pre @ (k, v) # post"
        "\<forall>u \<in> snd ` set pre. \<exists>w. f u = Inr w" "f v = Inl e"
        by blast
      show "\<exists>pre k v post. xs = pre @ (k, v) # post
        \<and> (\<forall>u \<in> snd ` set pre. \<exists>w. f u = Inr w) \<and> f v = Inl e"
      proof (cases pre)
        case Nil
        with * x Inr show ?thesis by simp
      next
        case (Cons y ys)
        with * have "xs = ys @ (k, v) # post" "\<forall>u \<in> snd ` set ys. \<exists>w. f u = Inr w"
          by simp_all
        with *(3) show ?thesis by blast
      qed
    next
      assume "\<exists>pre k v post. xs = pre @ (k, v) # post
        \<and> (\<forall>u \<in> snd ` set pre. \<exists>w. f u = Inr w) \<and> f v = Inl e"
      then obtain pre k v post where *: "xs = pre @ (k, v) # post"
        "\<forall>u \<in> snd ` set pre. \<exists>w. f u = Inr w" "f v = Inl e"
        by blast
      then have "x # xs = (x # pre) @ (k, v) # post
          \<and> (\<forall>u \<in> snd ` set (x # pre). \<exists>w. f u = Inr w) \<and> f v = Inl e"
        using x Inr by simp
      then show "\<exists>pre k v post. x # xs = pre @ (k, v) # post
        \<and> (\<forall>u \<in> snd ` set pre. \<exists>w. f u = Inr w) \<and> f v = Inl e"
        by blast
    qed
    moreover have "mapValues f (x # xs) = Inl e \<longleftrightarrow> mapValues f xs = Inl e"
      using x Inr by (simp split: sum.splits)
    ultimately show ?thesis
      using Cons.IH by (simp only:)
  qed
qed

lemma parseValue_cases:
  "(parseValue JSON_parse val = Inl e \<longleftrightarrow>
      (\<exists>msg. JSON_parse val = Inl msg
         \<and> e = MalformedQuery (ApiSyntaxError ''Invalid syntax parsing query'' msg)))
   \<and> ((\<exists>w. parseValue JSON_parse val = Inr w) \<longleftrightarrow> (\<exists>j. JSON_parse val = Inr j))"
  by (cases "JSON_parse val") (auto simp: parseValue_def)

subsection \<open>pick and omit\<close>

lemma map_of_pick: "map_of (pick obj ks) k = (if k \<in> set ks then map_of obj k else None)"
  by (induction ks) (auto simp: pick_def split: option.splits)

lemma map_of_omit: "map_of (omit obj ks) k = (if k \<in> set ks then None else map_of obj k)"
  by (induction obj) (auto simp: omit_def)

lemma keys_omit: "map fst (omit obj ks) = filter (\<lambda>k. k \<notin> set ks) (map fst obj)"
  by (induction obj) (auto simp: omit_def)

lemma pick_cong: "(\<And>k. k \<in> set ks \<Longrightarrow> map_of a k = map_of b k) \<Longrightarrow> pick a ks = pick b ks"
  by (induction ks) (auto simp: pick_def)

lemma pick_pick: "pick (pick obj ks) ks = pick obj ks"
  by (rule pick_cong) (simp add: map_of_pick)

lemma pick_extra:
  assumes "k' \<notin> set ks"
  shows "pick (pick obj ks @ [(k', w)]) ks = pick obj ks"
proof -
  have "pick (pick obj ks @ [(k', w)]) ks = pick (pick obj ks) ks"
    using assms by (intro pick_cong) (auto simp: map_of_pick map_add_def split: option.splits)
  then show ?thesis by (simp add: pick_pick)
qed

lemma omit_append: "omit (xs @ ys) ks = omit xs ks @ omit ys ks"
  by (simp add: omit_def)

lemma omit_pick: "omit (pick obj ks) ks = []"
  by (induction ks) (auto simp: pick_def omit_def split: option.splits)

lemma omit_omit: "omit (omit obj ks) ks = omit obj ks"
  by (simp add: omit_def)

lemma pick_then_omit: "pick (pick obj ks @ omit obj ks) ks = pick obj ks"
proof -
  have "pick (pick obj ks @ omit obj ks) ks = pick (pick obj ks) ks"
    by (intro pick_cong) (auto simp: map_of_pick map_of_omit map_add_def split: option.splits)
  then show ?thesis by (simp add: pick_pick)
qed

subsection \<open>A query that does not parse\<close>

lemma parseQuery_Inl_iff:
  "parseQuery JSON_parse queryObj = Inl e \<longleftrightarrow>
     (if map_of queryObj ''hasOwnProperty'' \<noteq> None
      then e = JsError ''TypeError'' ''queryObj.hasOwnProperty is not a function''
      else \<exists>val msg. map_of queryObj ''query'' = Some val \<and> JSON_parse val = Inl msg
             \<and> e = JsError ''SyntaxError'' msg)"
  by (auto simp: parseQuery_def Let_def split: option.splits sum.splits)

lemma parseQuery_plain:
  "map_of queryObj ''hasOwnProperty'' = None \<and> map_of queryObj ''query'' = None \<Longrightarrow>
     parseQuery JSON_parse queryObj =
       Inr \<lparr> query = strings (omit queryObj QUERY_OPTS), opts = pick queryObj QUERY_OPTS \<rparr>"
  by (simp add: parseQuery_def Let_def)

lemma parse_failure_reply:
  assumes "parseQuery JSON_parse (req_query req) = Inl e"
  shows "route_handler r v M JSON_parse respondError req res w =
    (Inr (res_send_text (badQuery e) (res_status 400 res)), w)"
  using assms by (cases r; cases v) (simp_all add: handler_defs)

section \<open>The singular write verbs\<close>

text \<open>
  C1. A singular POST or PUT whose search clause, with the path identifier folded in, is
  empty (\<open>_.isEmpty\<close>) spawns an entity from the request body and persists it; when the
  persist resolves, the answer is 201 with the serialisation of the persisted entity, and
  the model layer has seen these two calls only, no find and no update. The query is one
  that parses and whose clause takes the identifier.
\<close>

theorem singular_write_empty_predicate_creates:
  assumes "v = POST \<or> v = PUT"
    and "parseQuery JSON_parse (req_query req) = Inr p"
    and "fold_id (query p) (req_param1 req) = Inr q"
    and "isEmpty q"
    and "entity_persist M (model_spawn M (req_body req)) s = (Inr e, s')"
  shows "route_handler Singular v M JSON_parse respondError req fresh (s, cs) =
    (Inr \<lparr> statusCode = 201, payload = Json (entity_toObject M e) \<rparr>,
     (s', cs @ [Spawn (req_body req), Persist (model_spawn M (req_body req))]))"
  using assms by (auto simp add: handler_defs world_defs response_defs Let_def)

text \<open>
  The example of the specification: POST with no query and the body \<open>{"name":"a"}\<close> on
  the empty store; the body of the answer carries the fresh identifier.
\<close>

theorem singular_write_empty_predicate_creates_witness:
  "route_handler Singular POST mem_model json_parse mem_respondError
     \<lparr> req_query = [], req_param1 = None, req_body = JObj [(''name'', JStr ''a'')] \<rparr>
     fresh (empty_store, []) =
   (Inr \<lparr> statusCode = 201,
          payload = Json (JObj [(''id'', JStr ''0''), (''name'', JStr ''a'')]) \<rparr>,
    ((1, [\<lparr> ident = Some ''0'', attributes = [(''name'', JStr ''a'')] \<rparr>]),
     [Spawn (JObj [(''name'', JStr ''a'')]),
      Persist \<lparr> ident = None, attributes = [(''name'', JStr ''a'')] \<rparr>]))"
proof -
  let ?req = "\<lparr> req_query = [], req_param1 = None, req_body = JObj [(''name'', JStr ''a'')] \<rparr>"
  let ?p = "\<lparr> query = JObj [], opts = [] \<rparr>"
  have verb: "POST = POST \<or> POST = PUT"
    by simp
  have parse: "parseQuery json_parse (req_query ?req) = Inr ?p"
    by (simp add: query_eval Let_def)
  have fold: "fold_id (query ?p) (req_param1 ?req) = Inr (Value (JObj []))"
    by (simp add: query_eval Let_def)
  have empty: "isEmpty (Value (JObj []))"
    by simp
  have persist: "entity_persist mem_model (model_spawn mem_model (req_body ?req)) empty_store =
      (Inr \<lparr> ident = Some ''0'', attributes = [(''name'', JStr ''a'')] \<rparr>,
       (1, [\<lparr> ident = Some ''0'', attributes = [(''name'', JStr ''a'')] \<rparr>]))"
    by (simp add: mem_eval json_eval Let_def)
  from singular_write_empty_predicate_creates
         [OF verb parse fold empty persist, of mem_respondError "[]"]
  show ?thesis
    by (simp add: mem_eval Let_def)
qed

text \<open>
  C2. A singular PUT whose clause is not empty looks the entity up. When none matches, the
  answer is 404 with no content. When one matches, \<open>replaceAttributes\<close> is called on it
  with the whole request body, which by the contract of the model layer leaves exactly the
  attributes of the body, the result is persisted and, when the persist resolves, the
  answer is 200 with the serialisation of the persisted entity.
\<close>

theorem singular_put_replaces_or_404:
  assumes "parseQuery JSON_parse (req_query req) = Inr p"
    and "fold_id (query p) (req_param1 req) = Inr q"
    and "\<not> isEmpty q"
    and "model_find M q (opts p) s = (Inr found, s1)"
  shows "(found = None \<longrightarrow>
            route_handler Singular PUT M JSON_parse respondError req fresh (s, cs) =
              (Inr \<lparr> statusCode = 404, payload = Empty \<rparr>, (s1, cs @ [Find q (opts p)])))
       \<and> (\<forall>e e' s2. found = Some e
             \<and> entity_persist M (entity_replaceAttributes M (req_body req) e) s1 = (Inr e', s2) \<longrightarrow>
            route_handler Singular PUT M JSON_parse respondError req fresh (s, cs) =
              (Inr \<lparr> statusCode = 200, payload = Json (entity_toObject M e') \<rparr>,
               (s2, cs @ [Find q (opts p),
                          Persist (entity_replaceAttributes M (req_body req) e)])))"
  using assms by (auto simp add: handler_defs world_defs response_defs Let_def)

text \<open>
  The example of the specification: the entity \<open>{name: "a", age: 5}\<close> and the body
  \<open>{"name":"b"}\<close> leave exactly \<open>{name: "b"}\<close>; and an identifier that no entity has.
\<close>

theorem singular_put_replaces_or_404_witness:
  "route_handler Singular PUT mem_model json_parse mem_respondError
     \<lparr> req_query = [], req_param1 = Some ''1'', req_body = JObj [(''name'', JStr ''b'')] \<rparr>
     fresh (one_entity_store, []) =
   (Inr \<lparr> statusCode = 200,
          payload = Json (JObj [(''id'', JStr ''1''), (''name'', JStr ''b'')]) \<rparr>,
    ((2, [\<lparr> ident = Some ''1'', attributes = [(''name'', JStr ''b'')] \<rparr>]),
     [Find (Value (JObj [(''id'', JStr ''1'')])) [],
      Persist \<lparr> ident = Some ''1'', attributes = [(''name'', JStr ''b'')] \<rparr>]))
   \<and> route_handler Singular PUT mem_model json_parse mem_respondError
     \<lparr> req_query = [], req_param1 = Some ''7'', req_body = JObj [(''name'', JStr ''b'')] \<rparr>
     fresh (one_entity_store, []) =
   (Inr \<lparr> statusCode = 404, payload = Empty \<rparr>,
    (one_entity_store, [Find (Value (JObj [(''id'', JStr ''7'')])) []]))"
proof -
  let ?req = "\<lparr> req_query = [], req_param1 = Some ''1'', req_body = JObj [(''name'', JStr ''b'')] \<rparr>"
  let ?req' = "\<lparr> req_query = [], req_param1 = Some ''7'', req_body = JObj [(''name'', JStr ''b'')] \<rparr>"
  let ?p = "\<lparr> query = JObj [], opts = [] \<rparr>"
  let ?e = "\<lparr> ident = Some ''1'', attributes = [(''name'', JStr ''a''), (''age'', JNum 5)] \<rparr>"
  have parse: "parseQuery json_parse (req_query ?req) = Inr ?p"
    and parse': "parseQuery json_parse (req_query ?req') = Inr ?p"
    by (simp_all add: query_eval Let_def)
  have fold: "fold_id (query ?p) (req_param1 ?req) = Inr (Value (JObj [(''id'', JStr ''1'')]))"
    and fold': "fold_id (query ?p) (req_param1 ?req') = Inr (Value (JObj [(''id'', JStr ''7'')]))"
    by (simp_all add: query_eval Let_def)
  have nonempty: "\<not> isEmpty (Value (JObj [(''id'', JStr ''1'')]))"
    and nonempty': "\<not> isEmpty (Value (JObj [(''id'', JStr ''7'')]))"
    by simp_all
  have find: "model_find mem_model (Value (JObj [(''id'', JStr ''1'')])) (opts ?p) one_entity_store =
      (Inr (Some ?e), one_entity_store)"
    and find': "model_find mem_model (Value (JObj [(''id'', JStr ''7'')])) (opts ?p) one_entity_store =
      (Inr None, one_entity_store)"
    by (simp_all add: mem_eval Let_def)
  from singular_put_replaces_or_404 [OF parse fold nonempty find, of mem_respondError "[]"]
       singular_put_replaces_or_404 [OF parse' fold' nonempty' find', of mem_respondError "[]"]
  show ?thesis
    by (simp add: mem_eval Let_def)
qed

section \<open>ApiGenerator.parseQuery\<close>

text \<open>
  C3. When parseQuery accepts a query string, its options are the decoded values of the
  keys \<open>skip\<close>, \<open>limit\<close>, \<open>sort\<close> and \<open>page\<close> and of no other key. When there is a key
  \<open>where\<close>, the search clause is the decoded value of that key, whatever the other keys
  are; otherwise it is the object of the remaining keys, in their order, with their
  decoded values.
\<close>

theorem parseQuery_partition:
  assumes "ApiGenerator_parseQuery JSON_parse queryObj = Inr r"
  shows "(\<forall>k. map_of (options r) k =
            (if k \<in> {''skip'', ''limit'', ''sort'', ''page''}
             then decoded JSON_parse queryObj k else None))
       \<and> (case map_of queryObj ''where'' of
            Some val \<Rightarrow> JSON_parse val = Inr (where_clause r)
          | None \<Rightarrow>
              (\<exists>props. where_clause r = JObj props
                 \<and> map fst props =
                     filter (\<lambda>k. k \<notin> {''skip'', ''limit'', ''sort'', ''page''}) (map fst queryObj)
                 \<and> (\<forall>k. map_of props k =
                       (if k \<in> {''skip'', ''limit'', ''sort'', ''page''} then None
                        else decoded JSON_parse queryObj k))))"
proof -
  from assms obtain rw where rw: "mapValues (parseValue JSON_parse) queryObj = Inr rw"
    and r: "r = \<lparr> raw = rw, options = pick rw QUERY_OPTS,
                  where_clause = get rw ''where'' (JObj (omit rw QUERY_OPTS)) \<rparr>"
    by (auto simp: ApiGenerator_parseQuery_def split: sum.splits)
  have look: "map_of rw k = decoded JSON_parse queryObj k" for k
    using mapValues_Inr_lookup [OF rw, of k]
    by (auto simp: decoded_def parseValue_def split: option.splits sum.splits)
  have keys: "map fst rw = map fst queryObj"
    by (rule mapValues_Inr_keys [OF rw])
  have opts: "set QUERY_OPTS = {''skip'', ''limit'', ''sort'', ''page''}"
    by (auto simp: QUERY_OPTS_def)
  have A: "\<forall>k. map_of (options r) k =
            (if k \<in> {''skip'', ''limit'', ''sort'', ''page''}
             then decoded JSON_parse queryObj k else None)"
    by (simp add: r map_of_pick look opts)
  have B: "(case map_of queryObj ''where'' of
            Some val \<Rightarrow> JSON_parse val = Inr (where_clause r)
          | None \<Rightarrow>
              (\<exists>props. where_clause r = JObj props
                 \<and> map fst props =
                     filter (\<lambda>k. k \<notin> {''skip'', ''limit'', ''sort'', ''page''}) (map fst queryObj)
                 \<and> (\<forall>k. map_of props k =
                       (if k \<in> {''skip'', ''limit'', ''sort'', ''page''} then None
                        else decoded JSON_parse queryObj k))))"
  proof (cases "map_of queryObj ''where''")
    case None
    then have "map_of rw ''where'' = None"
      by (simp add: look decoded_def)
    then have "where_clause r = JObj (omit rw QUERY_OPTS)"
      by (simp add: r get_def)
    then show ?thesis
      using None by (simp add: keys_omit map_of_omit look keys opts)
  next
    case (Some val)
    then have "(''where'', val) \<in> set queryObj"
      by (rule map_of_SomeD)
    from mapValues_Inr_all [OF rw this] obtain w where "JSON_parse val = Inr w"
      by (auto simp: parseValue_def split: sum.splits)
    then have "map_of rw ''where'' = Some w" "JSON_parse val = Inr w"
      using Some by (simp_all add: look decoded_def)
    then show ?thesis
      using Some by (simp add: r get_def)
  qed
  from A B show ?thesis by blast
qed

text \<open>
  The example of the specification, with one more key beside \<open>where\<close>, and a query
  string without \<open>where\<close>.
\<close>

theorem parseQuery_partition_witness:
  "ApiGenerator_parseQuery json_parse
     [(''skip'', ''5''), (''where'', ''{\"name\":\"x\"}''), (''other'', ''1'')] =
   Inr \<lparr> raw = [(''skip'', JNum 5), (''where'', JObj [(''name'', JStr ''x'')]),
                (''other'', JNum 1)],
         options = [(''skip'', JNum 5)],
         where_clause = JObj [(''name'', JStr ''x'')] \<rparr>
   \<and> json_parse ''{\"name\":\"x\"}'' = Inr (JObj [(''name'', JStr ''x'')])
   \<and> ApiGenerator_parseQuery json_parse [(''limit'', ''10''), (''name'', ''\"x\"'')] =
   Inr \<lparr> raw = [(''limit'', JNum 10), (''name'', JStr ''x'')],
         options = [(''limit'', JNum 10)],
         where_clause = JObj [(''name'', JStr ''x'')] \<rparr>"
proof -
  let ?r = "\<lparr> raw = [(''skip'', JNum 5), (''where'', JObj [(''name'', JStr ''x'')]),
                   (''other'', JNum 1)],
            options = [(''skip'', JNum 5)],
            where_clause = JObj [(''name'', JStr ''x'')] \<rparr>"
  let ?r' = "\<lparr> raw = [(''limit'', JNum 10), (''name'', JStr ''x'')],
             options = [(''limit'', JNum 10)],
             where_clause = JObj [(''name'', JStr ''x'')] \<rparr>"
  have parse: "ApiGenerator_parseQuery json_parse
      [(''skip'', ''5''), (''where'', ''{\"name\":\"x\"}''), (''other'', ''1'')] = Inr ?r"
    by (simp add: query_eval json_eval Let_def)
  have parse': "ApiGenerator_parseQuery json_parse [(''limit'', ''10''), (''name'', ''\"x\"'')] =
      Inr ?r'"
    by (simp add: query_eval json_eval Let_def)
  from parseQuery_partition [OF parse] parseQuery_partition [OF parse'] parse parse'
  show ?thesis
    by simp
qed

text \<open>
  C4, as stated, fails on the handlers: they never call ApiGenerator.parseQuery but their own
  parseQuery, which decodes the value of the key \<open>query\<close> only. With the query string
  \<open>foo=not-json\<close> a value fails to decode, ApiGenerator.parseQuery fails with
  MalformedQuery, and yet \<open>_get\<close> does not answer 400: it looks up the clause
  \<open>{foo: "not-json"}\<close> and answers 404.
\<close>

theorem malformed_value_not_400_counterexample:
  "json_parse ''not-json'' = Inl ''Unexpected token in JSON''
   \<and> ApiGenerator_parseQuery json_parse [(''foo'', ''not-json'')] =
       Inl (MalformedQuery (ApiSyntaxError ''Invalid syntax parsing query''
                              ''Unexpected token in JSON''))
   \<and> route_handler Singular GET mem_model json_parse mem_respondError
        \<lparr> req_query = [(''foo'', ''not-json'')], req_param1 = None, req_body = JObj [] \<rparr>
        fresh (empty_store, []) =
       (Inr \<lparr> statusCode = 404, payload = Empty \<rparr>,
        (empty_store, [Find (Value (JObj [(''foo'', JStr ''not-json'')])) []]))"
  by (simp add: query_eval json_eval handler_defs world_defs response_defs mem_eval Let_def)

text \<open>
  C4, amended. ApiGenerator.parseQuery fails exactly when some value of the query string
  fails to decode; the values are decoded in order, and the MalformedQuery error carries
  the fixed message and the decoder's error of the first value that fails, neither key nor
  value. The handlers have their own parseQuery: it fails exactly when the query string
  has a key \<open>hasOwnProperty\<close> (a \<open>TypeError\<close>) or, without such a key, a key
  \<open>query\<close> whose value fails to decode (a \<open>SyntaxError\<close>). When it fails, every
  handler answers 400, before any call of the model layer, with the text
  \<open>Query property "query" expected to be a valid JSON object:\<close> followed by the caught
  error. With neither of the two keys the parser of the handlers succeeds whatever the
  values are, and the clause is the object of the undecoded strings.
\<close>

theorem malformed_query_per_parser:
  "(\<forall>e. ApiGenerator_parseQuery JSON_parse queryObj = Inl e \<longleftrightarrow>
        (\<exists>pre k val post msg. queryObj = pre @ (k, val) # post
            \<and> (\<forall>u \<in> snd ` set pre. \<exists>j. JSON_parse u = Inr j)
            \<and> JSON_parse val = Inl msg
            \<and> e = MalformedQuery (ApiSyntaxError ''Invalid syntax parsing query'' msg)))
   \<and> ((\<exists>e. ApiGenerator_parseQuery JSON_parse queryObj = Inl e) \<longleftrightarrow>
        (\<exists>val \<in> snd ` set queryObj. \<exists>msg. JSON_parse val = Inl msg))
   \<and> (\<forall>e. parseQuery JSON_parse (req_query req) = Inl e \<longleftrightarrow>
        (if map_of (req_query req) ''hasOwnProperty'' \<noteq> None
         then e = JsError ''TypeError'' ''queryObj.hasOwnProperty is not a function''
         else \<exists>val msg. map_of (req_query req) ''query'' = Some val
                \<and> JSON_parse val = Inl msg \<and> e = JsError ''SyntaxError'' msg))
   \<and> (\<forall>e. parseQuery JSON_parse (req_query req) = Inl e \<longrightarrow>
        route_handler r v M JSON_parse respondError req fresh w =
          (Inr \<lparr> statusCode = 400,
                 payload = Text (''Query property \"query\" expected to be a valid JSON object:''
                                  @ error_toString e) \<rparr>, w))
   \<and> (map_of (req_query req) ''hasOwnProperty'' = None
        \<and> map_of (req_query req) ''query'' = None \<longrightarrow>
        parseQuery JSON_parse (req_query req) =
          Inr \<lparr> query = strings (omit (req_query req) QUERY_OPTS),
                opts = pick (req_query req) QUERY_OPTS \<rparr>)"
proof -
  have A: "\<forall>e. ApiGenerator_parseQuery JSON_parse queryObj = Inl e \<longleftrightarrow>
        (\<exists>pre k val post msg. queryObj = pre @ (k, val) # post
            \<and> (\<forall>u \<in> snd ` set pre. \<exists>j. JSON_parse u = Inr j)
            \<and> JSON_parse val = Inl msg
            \<and> e = MalformedQuery (ApiSyntaxError ''Invalid syntax parsing query'' msg))"
  proof
    fix e
    have "ApiGenerator_parseQuery JSON_parse queryObj = Inl e \<longleftrightarrow>
        mapValues (parseValue JSON_parse) queryObj = Inl e"
      by (auto simp: ApiGenerator_parseQuery_def split: sum.splits)
    also have "\<dots> \<longleftrightarrow> (\<exists>pre k val post. queryObj = pre @ (k, val) # post
        \<and> (\<forall>u \<in> snd ` set pre. \<exists>w. parseValue JSON_parse u = Inr w)
        \<and> parseValue JSON_parse val = Inl e)"
      by (rule mapValues_Inl_first)
    also have "\<dots> \<longleftrightarrow> (\<exists>pre k val post msg. queryObj = pre @ (k, val) # post
            \<and> (\<forall>u \<in> snd ` set pre. \<exists>j. JSON_parse u = Inr j)
            \<and> JSON_parse val = Inl msg
            \<and> e = MalformedQuery (ApiSyntaxError ''Invalid syntax parsing query'' msg))"
      by (simp add: parseValue_cases)
    finally show "ApiGenerator_parseQuery JSON_parse queryObj = Inl e \<longleftrightarrow>
        (\<exists>pre k val post msg. queryObj = pre @ (k, val) # post
            \<and> (\<forall>u \<in> snd ` set pre. \<exists>j. JSON_parse u = Inr j)
            \<and> JSON_parse val = Inl msg
            \<and> e = MalformedQuery (ApiSyntaxError ''Invalid syntax parsing query'' msg))" .
  qed
  have B: "(\<exists>e. ApiGenerator_parseQuery JSON_parse queryObj = Inl e) \<longleftrightarrow>
        (\<exists>val \<in> snd ` set queryObj. \<exists>msg. JSON_parse val = Inl msg)"
  proof -
    have "(\<exists>e. ApiGenerator_parseQuery JSON_parse queryObj = Inl e) \<longleftrightarrow>
        (\<exists>e. mapValues (parseValue JSON_parse) queryObj = Inl e)"
      by (auto simp: ApiGenerator_parseQuery_def split: sum.splits)
    also have "\<dots> \<longleftrightarrow> (\<exists>val \<in> snd ` set queryObj. \<exists>e. parseValue JSON_parse val = Inl e)"
      by (rule mapValues_Inl_iff)
    also have "\<dots> \<longleftrightarrow> (\<exists>val \<in> snd ` set queryObj. \<exists>msg. JSON_parse val = Inl msg)"
      by (simp add: parseValue_Inl_iff)
    finally show ?thesis .
  qed
  have C: "\<forall>e. parseQuery JSON_parse (req_query req) = Inl e \<longleftrightarrow>
        (if map_of (req_query req) ''hasOwnProperty'' \<noteq> None
         then e = JsError ''TypeError'' ''queryObj.hasOwnProperty is not a function''
         else \<exists>val msg. map_of (req_query req) ''query'' = Some val
                \<and> JSON_parse val = Inl msg \<and> e = JsError ''SyntaxError'' msg)"
    by (intro allI) (rule parseQuery_Inl_iff)
  have D: "\<forall>e. parseQuery JSON_parse (req_query req) = Inl e \<longrightarrow>
        route_handler r v M JSON_parse respondError req fresh w =
          (Inr \<lparr> statusCode = 400,
                 payload = Text (''Query property \"query\" expected to be a valid JSON object:''
                                  @ error_toString e) \<rparr>, w)"
    by (simp add: parse_failure_reply response_defs badQuery_def)
  have E: "map_of (req_query req) ''hasOwnProperty'' = None
        \<and> map_of (req_query req) ''query'' = None \<longrightarrow>
        parseQuery JSON_parse (req_query req) =
          Inr \<lparr> query = strings (omit (req_query req) QUERY_OPTS),
                opts = pick (req_query req) QUERY_OPTS \<rparr>"
    by (intro impI) (rule parseQuery_plain)
  from A B C D E show ?thesis
    by (intro conjI)
qed

text \<open>
  ApiGenerator.parseQuery on \<open>skip=5&foo=not-json&bar={\<close>, whose second value is the
  first to fail; \<open>_get\<close> with \<open>query={"name":zz}\<close> and the plural \<open>delete\<close> with
  \<open>hasOwnProperty=x\<close>, which leave the store alone; and the parser of the handlers on
  \<open>foo=not-json\<close>.
\<close>

theorem malformed_query_per_parser_witness:
  "ApiGenerator_parseQuery json_parse
       [(''skip'', ''5''), (''foo'', ''not-json''), (''bar'', ''{'')] =
     Inl (MalformedQuery (ApiSyntaxError ''Invalid syntax parsing query''
                            ''Unexpected token in JSON''))
   \<and> route_handler Singular GET mem_model json_parse mem_respondError
        \<lparr> req_query = [(''query'', ''{\"name\":zz}'')], req_param1 = None, req_body = JObj [] \<rparr>
        fresh (one_entity_store, []) =
       (Inr \<lparr> statusCode = 400,
              payload = Text (''Query property \"query\" expected to be a valid JSON object:''
                               @ ''SyntaxError: Unexpected token in JSON'') \<rparr>,
        (one_entity_store, []))
   \<and> route_handler Plural DELETE mem_model json_parse mem_respondError
        \<lparr> req_query = [(''hasOwnProperty'', ''x'')], req_param1 = None, req_body = JObj [] \<rparr>
        fresh (one_entity_store, []) =
       (Inr \<lparr> statusCode = 400,
              payload = Text (''Query property \"query\" expected to be a valid JSON object:''
                               @ ''TypeError: queryObj.hasOwnProperty is not a function'') \<rparr>,
        (one_entity_store, []))
   \<and> parseQuery json_parse [(''foo'', ''not-json'')] =
       Inr \<lparr> query = JObj [(''foo'', JStr ''not-json'')], opts = [] \<rparr>"
proof -
  let ?q = "[(''skip'', ''5''), (''foo'', ''not-json''), (''bar'', ''{'')]"
  let ?req1 = "\<lparr> req_query = [(''query'', ''{\"name\":zz}'')], req_param1 = None,
                 req_body = JObj [] \<rparr>"
  let ?req2 = "\<lparr> req_query = [(''hasOwnProperty'', ''x'')], req_param1 = None,
                 req_body = JObj [] \<rparr>"
  let ?req3 = "\<lparr> req_query = [(''foo'', ''not-json'')], req_param1 = None,
                 req_body = JObj [] \<rparr>"
  let ?e = "MalformedQuery (ApiSyntaxError ''Invalid syntax parsing query''
                            ''Unexpected token in JSON'')"
  let ?e1 = "JsError ''SyntaxError'' ''Unexpected token in JSON''"
  let ?e2 = "JsError ''TypeError'' ''queryObj.hasOwnProperty is not a function''"
  note T1 = malformed_query_per_parser
      [where JSON_parse = json_parse and queryObj = ?q and req = ?req1 and r = Singular
         and v = GET and M = mem_model and respondError = mem_respondError
         and w = "(one_entity_store, [])"]
  note T2 = malformed_query_per_parser
      [where JSON_parse = json_parse and queryObj = ?q and req = ?req2 and r = Plural
         and v = DELETE and M = mem_model and respondError = mem_respondError
         and w = "(one_entity_store, [])"]
  note T3 = malformed_query_per_parser
      [where JSON_parse = json_parse and queryObj = ?q and req = ?req3 and r = Singular
         and v = GET and M = mem_model and respondError = mem_respondError
         and w = "(one_entity_store, [])"]
  have earliest: "\<exists>pre k val post msg. ?q = pre @ (k, val) # post
      \<and> (\<forall>u \<in> snd ` set pre. \<exists>j. json_parse u = Inr j)
      \<and> json_parse val = Inl msg
      \<and> ?e = MalformedQuery (ApiSyntaxError ''Invalid syntax parsing query'' msg)"
    by (rule exI [where x = "[(''skip'', ''5'')]"], rule exI [where x = "''foo''"],
        rule exI [where x = "''not-json''"], rule exI [where x = "[(''bar'', ''{'')]"],
        rule exI [where x = "''Unexpected token in JSON''"])
       (simp add: json_eval)
  note 1 = T1 [THEN conjunct1, THEN spec, THEN iffD2, OF earliest]
  have bad_json: "if map_of (req_query ?req1) ''hasOwnProperty'' \<noteq> None
      then ?e1 = JsError ''TypeError'' ''queryObj.hasOwnProperty is not a function''
      else \<exists>val msg. map_of (req_query ?req1) ''query'' = Some val
             \<and> json_parse val = Inl msg \<and> ?e1 = JsError ''SyntaxError'' msg"
    by (simp add: json_eval)
  note parse1 = T1 [THEN conjunct2, THEN conjunct2, THEN conjunct1, THEN spec, THEN iffD2,
                    OF bad_json]
  note 2 = T1 [THEN conjunct2, THEN conjunct2, THEN conjunct2, THEN conjunct1, THEN spec,
               THEN mp, OF parse1]
  have own_key: "if map_of (req_query ?req2) ''hasOwnProperty'' \<noteq> None
      then ?e2 = JsError ''TypeError'' ''queryObj.hasOwnProperty is not a function''
      else \<exists>val msg. map_of (req_query ?req2) ''query'' = Some val
             \<and> json_parse val = Inl msg \<and> ?e2 = JsError ''SyntaxError'' msg"
    by simp
  note parse2 = T2 [THEN conjunct2, THEN conjunct2, THEN conjunct1, THEN spec, THEN iffD2,
                    OF own_key]
  note 3 = T2 [THEN conjunct2, THEN conjunct2, THEN conjunct2, THEN conjunct1, THEN spec,
               THEN mp, OF parse2]
  have neither: "map_of (req_query ?req3) ''hasOwnProperty'' = None
      \<and> map_of (req_query ?req3) ''query'' = None"
    by simp
  note 4 = T3 [THEN conjunct2, THEN conjunct2, THEN conjunct2, THEN conjunct2, THEN mp,
               OF neither]
  from 1 2 3 4 show ?thesis
    by (simp add: strings_def omit_def pick_def QUERY_OPTS_def)
qed

subsection \<open>Writing a parse result back\<close>

lemma reencode_under_where:
  assumes "ApiGenerator_parseQuery JSON_parse queryObj = Inr r"
    and "\<forall>v \<in> insert (where_clause r) (snd ` set (options r)).
           JSON_parse (JSON_stringify v) = Inr v"
  shows "\<exists>r'. ApiGenerator_parseQuery JSON_parse (reencode JSON_stringify r) = Inr r'
            \<and> options r' = options r \<and> where_clause r' = where_clause r"
proof -
  from assms(1) obtain rw where r: "options r = pick rw QUERY_OPTS"
    by (auto simp: ApiGenerator_parseQuery_def split: sum.splits)
  let ?f = "parseValue JSON_parse"
  have "\<forall>v \<in> snd ` set (options r). ?f (JSON_stringify v) = Inr v"
    using assms(2) by (simp add: parseValue_def)
  then have 1: "mapValues ?f (map (\<lambda>(k, v). (k, JSON_stringify v)) (options r)) = Inr (options r)"
    by (rule mapValues_inverse)
  have 2: "?f (JSON_stringify (where_clause r)) = Inr (where_clause r)"
    using assms(2) by (simp add: parseValue_def)
  have rw': "mapValues ?f (reencode JSON_stringify r) =
      Inr (options r @ [(''where'', where_clause r)])"
    by (simp add: reencode_def mapValues_append 1 2)
  have no: "''where'' \<notin> set QUERY_OPTS"
    by (simp add: QUERY_OPTS_def)
  have "pick (options r @ [(''where'', where_clause r)]) QUERY_OPTS = options r"
    unfolding r by (rule pick_extra [OF no])
  moreover have "get (options r @ [(''where'', where_clause r)]) ''where'' d = where_clause r" for d
    using no by (simp add: get_def r map_of_pick map_add_def)
  ultimately show ?thesis
    by (simp add: ApiGenerator_parseQuery_def rw')
qed

lemma reencode_key_by_key:
  assumes "ApiGenerator_parseQuery JSON_parse queryObj = Inr r"
    and "map_of queryObj ''where'' = None"
    and "\<forall>v \<in> snd ` set (raw r). JSON_parse (JSON_stringify v) = Inr v"
  shows "\<exists>r'. ApiGenerator_parseQuery JSON_parse (reencode_flat JSON_stringify r) = Inr r'
            \<and> options r' = options r \<and> where_clause r' = where_clause r"
proof -
  from assms(1) obtain rw where rw: "mapValues (parseValue JSON_parse) queryObj = Inr rw"
    and r: "raw r = rw" "options r = pick rw QUERY_OPTS"
      "where_clause r = get rw ''where'' (JObj (omit rw QUERY_OPTS))"
    by (auto simp: ApiGenerator_parseQuery_def split: sum.splits)
  have nowhere: "map_of rw ''where'' = None"
    using mapValues_Inr_lookup [OF rw, of "''where''"] assms(2) by simp
  then have w: "where_clause r = JObj (omit rw QUERY_OPTS)"
    by (simp add: r get_def)
  let ?xs = "pick rw QUERY_OPTS @ omit rw QUERY_OPTS"
  have "set ?xs \<subseteq> set rw"
    by (auto simp: pick_def omit_def split: option.splits intro: map_of_SomeD [OF sym])
  then have "snd ` set ?xs \<subseteq> snd ` set rw"
    by (rule image_mono)
  moreover have "\<forall>v \<in> snd ` set rw. parseValue JSON_parse (JSON_stringify v) = Inr v"
    using assms(3) by (simp add: r parseValue_def)
  ultimately have "\<forall>v \<in> snd ` set ?xs. parseValue JSON_parse (JSON_stringify v) = Inr v"
    by blast
  then have "mapValues (parseValue JSON_parse) (map (\<lambda>(k, v). (k, JSON_stringify v)) ?xs) = Inr ?xs"
    by (rule mapValues_inverse)
  moreover have "reencode_flat JSON_stringify r = map (\<lambda>(k, v). (k, JSON_stringify v)) ?xs"
    by (simp add: reencode_flat_def r(2) w)
  ultimately have again:
    "mapValues (parseValue JSON_parse) (reencode_flat JSON_stringify r) = Inr ?xs"
    by simp
  have no: "''where'' \<notin> set QUERY_OPTS"
    by (simp add: QUERY_OPTS_def)
  have "map_of ?xs ''where'' = None"
    using no nowhere by (simp add: map_of_pick map_of_omit map_add_def)
  then have "get ?xs ''where'' (JObj (omit ?xs QUERY_OPTS)) = JObj (omit rw QUERY_OPTS)"
    by (simp add: get_def omit_append omit_pick omit_omit map_add_def)
  then show ?thesis
    by (simp add: ApiGenerator_parseQuery_def again r(2) w pick_then_omit)
qed

text \<open>
  C8, as stated, fails: the decoded value of \<open>limit=1e999\<close> is \<open>Infinity\<close>, which
  \<open>JSON.stringify\<close> writes as \<open>null\<close>. Written back, with the clause under \<open>where\<close>
  or key by key, the query string parses to the option \<open>limit: null\<close>, not to
  \<open>limit: Infinity\<close>.
\<close>

theorem parseQuery_reencode_infinity_counterexample:
  "ApiGenerator_parseQuery json_parse [(''limit'', ''1e999'')] =
     Inr \<lparr> raw = [(''limit'', JInfinity)], options = [(''limit'', JInfinity)],
           where_clause = JObj [] \<rparr>
   \<and> reencode json_stringify
        \<lparr> raw = [(''limit'', JInfinity)], options = [(''limit'', JInfinity)],
          where_clause = JObj [] \<rparr> = [(''limit'', ''null''), (''where'', ''{}'')]
   \<and> ApiGenerator_parseQuery json_parse [(''limit'', ''null''), (''where'', ''{}'')] =
     Inr \<lparr> raw = [(''limit'', JNull), (''where'', JObj [])], options = [(''limit'', JNull)],
           where_clause = JObj [] \<rparr>
   \<and> reencode_flat json_stringify
        \<lparr> raw = [(''limit'', JInfinity)], options = [(''limit'', JInfinity)],
          where_clause = JObj [] \<rparr> = [(''limit'', ''null'')]
   \<and> ApiGenerator_parseQuery json_parse [(''limit'', ''null'')] =
     Inr \<lparr> raw = [(''limit'', JNull)], options = [(''limit'', JNull)],
           where_clause = JObj [] \<rparr>"
  by (simp add: query_eval json_eval reencode_flat_def Let_def)

text \<open>
  C8, amended. parseQuery is idempotent through re-encoding on the values that
  \<open>JSON.stringify\<close> and \<open>JSON.parse\<close> give back unchanged. When a query string parses
  and each option and the search clause are such values, writing each option under its key
  and the clause under \<open>where\<close> and parsing again gives the same options and the same
  clause. When the query string has no key \<open>where\<close> and each of its decoded values is
  such a value, writing the options and the properties of the clause back key by key and
  parsing again gives the same options and the same clause too.
\<close>

theorem parseQuery_reencode_idempotent:
  assumes "ApiGenerator_parseQuery JSON_parse queryObj = Inr r"
  shows "((\<forall>v \<in> insert (where_clause r) (snd ` set (options r)).
              JSON_parse (JSON_stringify v) = Inr v) \<longrightarrow>
          (\<exists>r'. ApiGenerator_parseQuery JSON_parse (reencode JSON_stringify r) = Inr r'
              \<and> options r' = options r \<and> where_clause r' = where_clause r))
       \<and> (map_of queryObj ''where'' = None
            \<and> (\<forall>v \<in> snd ` set (raw r). JSON_parse (JSON_stringify v) = Inr v) \<longrightarrow>
          (\<exists>r'. ApiGenerator_parseQuery JSON_parse (reencode_flat JSON_stringify r) = Inr r'
              \<and> options r' = options r \<and> where_clause r' = where_clause r))"
  using reencode_under_where [OF assms] reencode_key_by_key [OF assms]
  by (intro conjI impI) simp_all

text \<open>
  A query string with an option and three plain keys: written back with the clause under
  \<open>where\<close> it reads \<open>skip=15&where={"name":"x","n":-3,"tags":["a",true,null]}\<close>, key
  by key \<open>skip=15&name="x"&n=-3&tags=["a",true,null]\<close>; both parse to the same options
  and clause.
\<close>

theorem parseQuery_reencode_idempotent_witness:
  "reencode json_stringify
     \<lparr> raw = [(''skip'', JNum 15), (''name'', JStr ''x''), (''n'', JNum (- 3)),
              (''tags'', JArr [JStr ''a'', JBool True, JNull])],
       options = [(''skip'', JNum 15)],
       where_clause = JObj [(''name'', JStr ''x''), (''n'', JNum (- 3)),
                            (''tags'', JArr [JStr ''a'', JBool True, JNull])] \<rparr> =
     [(''skip'', ''15''),
      (''where'', ''{\"name\":\"x\",\"n\":-3,\"tags\":[\"a\",true,null]}'')]
   \<and> (\<exists>r'. ApiGenerator_parseQuery json_parse
              [(''skip'', ''15''),
               (''where'', ''{\"name\":\"x\",\"n\":-3,\"tags\":[\"a\",true,null]}'')] = Inr r'
          \<and> options r' = [(''skip'', JNum 15)]
          \<and> where_clause r' = JObj [(''name'', JStr ''x''), (''n'', JNum (- 3)),
                                     (''tags'', JArr [JStr ''a'', JBool True, JNull])])
   \<and> reencode_flat json_stringify
     \<lparr> raw = [(''skip'', JNum 15), (''name'', JStr ''x''), (''n'', JNum (- 3)),
              (''tags'', JArr [JStr ''a'', JBool True, JNull])],
       options = [(''skip'', JNum 15)],
       where_clause = JObj [(''name'', JStr ''x''), (''n'', JNum (- 3)),
                            (''tags'', JArr [JStr ''a'', JBool True, JNull])] \<rparr> =
     [(''skip'', ''15''), (''name'', ''\"x\"''), (''n'', ''-3''),
      (''tags'', ''[\"a\",true,null]'')]
   \<and> (\<exists>r'. ApiGenerator_parseQuery json_parse
              [(''skip'', ''15''), (''name'', ''\"x\"''), (''n'', ''-3''),
               (''tags'', ''[\"a\",true,null]'')] = Inr r'
          \<and> options r' = [(''skip'', JNum 15)]
          \<and> where_clause r' = JObj [(''name'', JStr ''x''), (''n'', JNum (- 3)),
                                     (''tags'', JArr [JStr ''a'', JBool True, JNull])])"
proof -
  let ?q = "[(''skip'', ''15''), (''name'', ''\"x\"''), (''n'', ''-3''),
             (''tags'', ''[\"a\", true, null]'')]"
  let ?w = "JObj [(''name'', JStr ''x''), (''n'', JNum (- 3)),
                  (''tags'', JArr [JStr ''a'', JBool True, JNull])]"
  let ?r = "\<lparr> raw = [(''skip'', JNum 15), (''name'', JStr ''x''), (''n'', JNum (- 3)),
                   (''tags'', JArr [JStr ''a'', JBool True, JNull])],
            options = [(''skip'', JNum 15)], where_clause = ?w \<rparr>"
  have parse: "ApiGenerator_parseQuery json_parse ?q = Inr ?r"
    by (simp add: query_eval json_eval Let_def)
  have written: "reencode json_stringify ?r =
      [(''skip'', ''15''), (''where'', ''{\"name\":\"x\",\"n\":-3,\"tags\":[\"a\",true,null]}'')]"
    by (simp add: reencode_def json_eval)
  have written_flat: "reencode_flat json_stringify ?r =
      [(''skip'', ''15''), (''name'', ''\"x\"''), (''n'', ''-3''),
       (''tags'', ''[\"a\",true,null]'')]"
    by (simp add: reencode_flat_def json_eval)
  have roundtrip: "\<forall>v \<in> insert (where_clause ?r) (snd ` set (options ?r)).
      json_parse (json_stringify v) = Inr v"
    by (simp add: json_eval)
  have roundtrip_flat: "map_of ?q ''where'' = None
      \<and> (\<forall>v \<in> snd ` set (raw ?r). json_parse (json_stringify v) = Inr v)"
    by (simp add: json_eval)
  note T = parseQuery_reencode_idempotent [OF parse, where JSON_stringify = json_stringify]
  note A = T [THEN conjunct1, THEN mp, OF roundtrip]
  note B = T [THEN conjunct2, THEN mp, OF roundtrip_flat]
  from A B written written_flat show ?thesis
    by simp
qed

subsection \<open>Remark: a clause from \<open>where\<close> written back key by key\<close>

text \<open>
  Key by key the result need not come back when the query string had a key \<open>where\<close>:
  the clause of \<open>where={"skip":1}\<close> is written back as the query string \<open>skip=1\<close>,
  whose \<open>skip\<close> is an option.
\<close>

lemma parseQuery_reencode_flat_where:
  "ApiGenerator_parseQuery json_parse [(''where'', ''{\"skip\":1}'')] =
     Inr \<lparr> raw = [(''where'', JObj [(''skip'', JNum 1)])], options = [],
           where_clause = JObj [(''skip'', JNum 1)] \<rparr>
   \<and> reencode_flat json_stringify
        \<lparr> raw = [(''where'', JObj [(''skip'', JNum 1)])], options = [],
          where_clause = JObj [(''skip'', JNum 1)] \<rparr> = [(''skip'', ''1'')]
   \<and> ApiGenerator_parseQuery json_parse [(''skip'', ''1'')] =
     Inr \<lparr> raw = [(''skip'', JNum 1)], options = [(''skip'', JNum 1)],
           where_clause = JObj [] \<rparr>"
  by (simp add: query_eval json_eval reencode_flat_def Let_def)

section \<open>Reads, deletes and the plural write verbs\<close>

text \<open>
  C5. A plural GET whose query resolves to the empty set answers 404, and yet its body is
  the serialisation of the empty set, not an empty body; a singular GET for which no
  entity is found answers 404 with no content. The query is one that parses, and on the
  singular route its clause takes the identifier.
\<close>

theorem empty_read_404:
  assumes "parseQuery JSON_parse (req_query req) = Inr p"
  shows "(model_findMany M (Value (query p)) (opts p) s = (Inr [], s') \<longrightarrow>
            route_handler Plural GET M JSON_parse respondError req fresh (s, cs) =
              (Inr \<lparr> statusCode = 404, payload = Json (set_toObject M []) \<rparr>,
               (s', cs @ [FindMany (Value (query p)) (opts p)])))
       \<and> (\<forall>q. fold_id (query p) (req_param1 req) = Inr q
             \<and> model_find M q (opts p) s = (Inr None, s') \<longrightarrow>
            route_handler Singular GET M JSON_parse respondError req fresh (s, cs) =
              (Inr \<lparr> statusCode = 404, payload = Empty \<rparr>, (s', cs @ [Find q (opts p)])))"
  using assms by (auto simp add: handler_defs world_defs response_defs Let_def)

text \<open>Both reads for \<open>name=zz\<close> on a store whose only entity is named \<open>a\<close>.\<close>

theorem empty_read_404_witness:
  "route_handler Plural GET mem_model json_parse mem_respondError
     \<lparr> req_query = [(''name'', ''zz'')], req_param1 = None, req_body = JObj [] \<rparr>
     fresh (one_entity_store, []) =
   (Inr \<lparr> statusCode = 404, payload = Json (JArr []) \<rparr>,
    (one_entity_store, [FindMany (Value (JObj [(''name'', JStr ''zz'')])) []]))
   \<and> route_handler Singular GET mem_model json_parse mem_respondError
     \<lparr> req_query = [(''name'', ''zz'')], req_param1 = None, req_body = JObj [] \<rparr>
     fresh (one_entity_store, []) =
   (Inr \<lparr> statusCode = 404, payload = Empty \<rparr>,
    (one_entity_store, [Find (Value (JObj [(''name'', JStr ''zz'')])) []]))"
proof -
  let ?req = "\<lparr> req_query = [(''name'', ''zz'')], req_param1 = None, req_body = JObj [] \<rparr>"
  let ?p = "\<lparr> query = JObj [(''name'', JStr ''zz'')], opts = [] \<rparr>"
  have parse: "parseQuery json_parse (req_query ?req) = Inr ?p"
    by (simp add: query_eval Let_def)
  have many: "model_findMany mem_model (Value (query ?p)) (opts ?p) one_entity_store =
      (Inr [], one_entity_store)"
    by (simp add: mem_eval Let_def)
  have one: "fold_id (query ?p) (req_param1 ?req) = Inr (Value (query ?p))
      \<and> model_find mem_model (Value (query ?p)) (opts ?p) one_entity_store =
          (Inr None, one_entity_store)"
    by (simp add: query_eval mem_eval Let_def)
  from empty_read_404 [OF parse, of mem_model one_entity_store one_entity_store
                         mem_respondError "[]"] many one
  show ?thesis
    by (simp add: mem_eval Let_def)
qed

text \<open>
  C6. A singular or plural DELETE with a query that parses (and, on the singular route, a
  clause that takes the identifier) calls the delete operation without looking anything
  up; when the operation resolves, whatever it removed, the answer is 200 with no content.
\<close>

theorem delete_always_200:
  assumes "parseQuery JSON_parse (req_query req) = Inr p"
  shows "(\<forall>q u. fold_id (query p) (req_param1 req) = Inr q
             \<and> model_delete M q (opts p) s = (Inr u, s') \<longrightarrow>
            route_handler Singular DELETE M JSON_parse respondError req fresh (s, cs) =
              (Inr \<lparr> statusCode = 200, payload = Empty \<rparr>, (s', cs @ [Delete q (opts p)])))
       \<and> (\<forall>u. model_deleteMany M (Value (query p)) (opts p) s = (Inr u, s') \<longrightarrow>
            route_handler Plural DELETE M JSON_parse respondError req fresh (s, cs) =
              (Inr \<lparr> statusCode = 200, payload = Empty \<rparr>,
               (s', cs @ [DeleteMany (Value (query p)) (opts p)])))"
  using assms by (auto simp add: handler_defs world_defs response_defs Let_def)

text \<open>
  A singular delete that removes the one entity named \<open>a\<close>, and a plural delete for
  \<open>name=a\<close> on the empty store, which removes nothing.
\<close>

theorem delete_always_200_witness:
  "route_handler Singular DELETE mem_model json_parse mem_respondError
     \<lparr> req_query = [(''name'', ''a'')], req_param1 = None, req_body = JObj [] \<rparr>
     fresh (one_entity_store, []) =
   (Inr \<lparr> statusCode = 200, payload = Empty \<rparr>,
    ((2, []), [Delete (Value (JObj [(''name'', JStr ''a'')])) []]))
   \<and> route_handler Plural DELETE mem_model json_parse mem_respondError
     \<lparr> req_query = [(''name'', ''a'')], req_param1 = None, req_body = JObj [] \<rparr>
     fresh (empty_store, []) =
   (Inr \<lparr> statusCode = 200, payload = Empty \<rparr>,
    (empty_store, [DeleteMany (Value (JObj [(''name'', JStr ''a'')])) []]))"
proof -
  let ?req = "\<lparr> req_query = [(''name'', ''a'')], req_param1 = None, req_body = JObj [] \<rparr>"
  let ?p = "\<lparr> query = JObj [(''name'', JStr ''a'')], opts = [] \<rparr>"
  have parse: "parseQuery json_parse (req_query ?req) = Inr ?p"
    by (simp add: query_eval Let_def)
  have one: "fold_id (query ?p) (req_param1 ?req) = Inr (Value (query ?p))
      \<and> model_delete mem_model (Value (query ?p)) (opts ?p) one_entity_store = (Inr (), (2, []))"
    by (simp add: query_eval mem_eval Let_def)
  have many: "model_deleteMany mem_model (Value (query ?p)) (opts ?p) empty_store =
      (Inr (), empty_store)"
    by (simp add: mem_eval Let_def)
  from delete_always_200 [OF parse, of mem_model one_entity_store "(2, [])"
                            mem_respondError "[]"]
       delete_always_200 [OF parse, of mem_model empty_store empty_store
                            mem_respondError "[]"] one many
  show ?thesis
    by (simp add: mem_eval Let_def)
qed

text \<open>
  C7, as stated, fails: a singular DELETE never answers 404. With the identifier \<open>7\<close>,
  which no entity of the store has, \<open>find\<close> resolves to nothing and \<open>_delete\<close> answers
  200 after the single call of \<open>delete\<close>.
\<close>

theorem singular_delete_missing_target_counterexample:
  "model_find mem_model (Value (JObj [(''id'', JStr ''7'')])) [] one_entity_store =
     (Inr None, one_entity_store)
   \<and> route_handler Singular DELETE mem_model json_parse mem_respondError
        \<lparr> req_query = [], req_param1 = Some ''7'', req_body = JObj [] \<rparr>
        fresh (one_entity_store, []) =
       (Inr \<lparr> statusCode = 200, payload = Empty \<rparr>,
        (one_entity_store, [Delete (Value (JObj [(''id'', JStr ''7'')])) []]))"
  by (simp add: query_eval handler_defs world_defs response_defs mem_eval Let_def)

text \<open>
  C7, amended. A singular DELETE whose clause selects no entity is answered like every
  other delete: the handler calls \<open>delete\<close> without a lookup and, when it resolves,
  answers 200 with no content.
\<close>

theorem singular_delete_missing_target_200:
  assumes "parseQuery JSON_parse (req_query req) = Inr p"
    and "fold_id (query p) (req_param1 req) = Inr q"
    and "model_find M q (opts p) s = (Inr None, s)"
    and "model_delete M q (opts p) s = (Inr u, s')"
  shows "route_handler Singular DELETE M JSON_parse respondError req fresh (s, cs) =
           (Inr \<lparr> statusCode = 200, payload = Empty \<rparr>, (s', cs @ [Delete q (opts p)]))"
  using assms by (auto simp add: handler_defs world_defs response_defs Let_def)

text \<open>The identifier \<open>9\<close> on the empty store.\<close>

theorem singular_delete_missing_target_200_witness:
  "route_handler Singular DELETE mem_model json_parse mem_respondError
     \<lparr> req_query = [], req_param1 = Some ''9'', req_body = JObj [] \<rparr>
     fresh (empty_store, []) =
   (Inr \<lparr> statusCode = 200, payload = Empty \<rparr>,
    (empty_store, [Delete (Value (JObj [(''id'', JStr ''9'')])) []]))"
proof -
  let ?req = "\<lparr> req_query = [], req_param1 = Some ''9'', req_body = JObj [] \<rparr>"
  let ?p = "\<lparr> query = JObj [], opts = [] \<rparr>"
  let ?q = "Value (JObj [(''id'', JStr ''9'')])"
  have parse: "parseQuery json_parse (req_query ?req) = Inr ?p"
    by (simp add: query_eval Let_def)
  have fold: "fold_id (query ?p) (req_param1 ?req) = Inr ?q"
    by (simp add: query_eval Let_def)
  have absent: "model_find mem_model ?q (opts ?p) empty_store = (Inr None, empty_store)"
    by (simp add: mem_eval Let_def)
  have deleted: "model_delete mem_model ?q (opts ?p) empty_store = (Inr (), empty_store)"
    by (simp add: mem_eval Let_def)
  from singular_delete_missing_target_200
         [OF parse fold absent deleted, of mem_respondError "[]"]
  show ?thesis
    by simp
qed

text \<open>
  C9. Whatever the route and the verb, when the query string of the request does not
  parse, that is when the parseQuery of the handlers throws, be it the \<open>SyntaxError\<close> of
  \<open>JSON.parse\<close> or the \<open>TypeError\<close> of \<open>queryObj.hasOwnProperty\<close>, the handler
  answers 400 with the caught error in its text and returns before any call of the model
  layer: the store is the one it was given and no call is recorded.
\<close>

theorem malformed_query_400_before_model:
  assumes "parseQuery JSON_parse (req_query req) = Inl e"
  shows "route_handler r v M JSON_parse respondError req fresh (s, cs) =
           (Inr \<lparr> statusCode = 400, payload = Text (badQuery e) \<rparr>, (s, cs))"
  using assms by (simp add: parse_failure_reply response_defs)

text \<open>
  A plural PUT with \<open>query={"name":zz}\<close>, after one earlier call, and a singular POST
  with \<open>hasOwnProperty=x\<close>.
\<close>

theorem malformed_query_400_before_model_witness:
  "route_handler Plural PUT mem_model json_parse mem_respondError
     \<lparr> req_query = [(''query'', ''{\"name\":zz}'')], req_param1 = None,
       req_body = JObj [(''name'', JStr ''b'')] \<rparr>
     fresh (one_entity_store, [Spawn JNull]) =
   (Inr \<lparr> statusCode = 400,
          payload = Text (''Query property \"query\" expected to be a valid JSON object:''
                           @ ''SyntaxError: Unexpected token in JSON'') \<rparr>,
    (one_entity_store, [Spawn JNull]))
   \<and> route_handler Singular POST mem_model json_parse mem_respondError
     \<lparr> req_query = [(''name'', ''a''), (''hasOwnProperty'', ''x'')], req_param1 = Some ''1'',
       req_body = JObj [(''name'', JStr ''b'')] \<rparr>
     fresh (one_entity_store, []) =
   (Inr \<lparr> statusCode = 400,
          payload = Text (''Query property \"query\" expected to be a valid JSON object:''
                           @ ''TypeError: queryObj.hasOwnProperty is not a function'') \<rparr>,
    (one_entity_store, []))"
proof -
  let ?req = "\<lparr> req_query = [(''query'', ''{\"name\":zz}'')], req_param1 = None,
                req_body = JObj [(''name'', JStr ''b'')] \<rparr>"
  let ?req' = "\<lparr> req_query = [(''name'', ''a''), (''hasOwnProperty'', ''x'')],
                 req_param1 = Some ''1'', req_body = JObj [(''name'', JStr ''b'')] \<rparr>"
  have parse: "parseQuery json_parse (req_query ?req) =
      Inl (JsError ''SyntaxError'' ''Unexpected token in JSON'')"
    by (simp add: query_eval json_eval Let_def)
  have parse': "parseQuery json_parse (req_query ?req') =
      Inl (JsError ''TypeError'' ''queryObj.hasOwnProperty is not a function'')"
    by (simp add: query_eval Let_def)
  note A = malformed_query_400_before_model
             [OF parse, where r = Plural and v = PUT and M = mem_model
                and respondError = mem_respondError and s = one_entity_store
                and cs = "[Spawn JNull]"]
  note B = malformed_query_400_before_model
             [OF parse', where r = Singular and v = POST and M = mem_model
                and respondError = mem_respondError and s = one_entity_store and cs = "[]"]
  from A B show ?thesis
    by (simp add: badQuery_def)
qed

text \<open>
  C10. A plural POST or PUT whose clause is not empty and selects no entity answers 404
  with the serialisation of the empty set as its body: for POST the set that
  \<open>updateMany\<close> resolves to is empty, for PUT the set that \<open>findMany\<close> resolves to is
  empty and so is the set that its \<open>persist\<close> resolves to.
\<close>

theorem plural_write_no_match_404:
  assumes "parseQuery JSON_parse (req_query req) = Inr p"
    and "\<not> isEmpty (Value (query p))"
  shows "(model_updateMany M (Value (query p)) (req_body req) (opts p) s = (Inr [], s') \<longrightarrow>
            route_handler Plural POST M JSON_parse respondError req fresh (s, cs) =
              (Inr \<lparr> statusCode = 404, payload = Json (set_toObject M []) \<rparr>,
               (s', cs @ [UpdateMany (Value (query p)) (req_body req) (opts p)])))
       \<and> (\<forall>s1. model_findMany M (Value (query p)) (opts p) s = (Inr [], s1)
             \<and> set_persist M [] s1 = (Inr [], s') \<longrightarrow>
            route_handler Plural PUT M JSON_parse respondError req fresh (s, cs) =
              (Inr \<lparr> statusCode = 404, payload = Json (set_toObject M []) \<rparr>,
               (s', cs @ [FindMany (Value (query p)) (opts p), PersistSet []])))"
  using assms by (auto simp add: handler_defs world_defs response_defs Let_def)

text \<open>Both verbs for \<open>name=zz\<close> on a store whose only entity is named \<open>a\<close>.\<close>

theorem plural_write_no_match_404_witness:
  "route_handler Plural POST mem_model json_parse mem_respondError
     \<lparr> req_query = [(''name'', ''zz'')], req_param1 = None,
       req_body = JObj [(''age'', JNum 6)] \<rparr>
     fresh (one_entity_store, []) =
   (Inr \<lparr> statusCode = 404, payload = Json (JArr []) \<rparr>,
    (one_entity_store,
     [UpdateMany (Value (JObj [(''name'', JStr ''zz'')])) (JObj [(''age'', JNum 6)]) []]))
   \<and> route_handler Plural PUT mem_model json_parse mem_respondError
     \<lparr> req_query = [(''name'', ''zz'')], req_param1 = None,
       req_body = JObj [(''age'', JNum 6)] \<rparr>
     fresh (one_entity_store, []) =
   (Inr \<lparr> statusCode = 404, payload = Json (JArr []) \<rparr>,
    (one_entity_store,
     [FindMany (Value (JObj [(''name'', JStr ''zz'')])) [], PersistSet []]))"
proof -
  let ?req = "\<lparr> req_query = [(''name'', ''zz'')], req_param1 = None,
                req_body = JObj [(''age'', JNum 6)] \<rparr>"
  let ?p = "\<lparr> query = JObj [(''name'', JStr ''zz'')], opts = [] \<rparr>"
  have parse: "parseQuery json_parse (req_query ?req) = Inr ?p"
    by (simp add: query_eval Let_def)
  have nonempty: "\<not> isEmpty (Value (query ?p))"
    by simp
  have post: "model_updateMany mem_model (Value (query ?p)) (req_body ?req) (opts ?p)
      one_entity_store = (Inr [], one_entity_store)"
    by (simp add: mem_eval Let_def)
  have put: "model_findMany mem_model (Value (query ?p)) (opts ?p) one_entity_store =
        (Inr [], one_entity_store)
      \<and> set_persist mem_model [] one_entity_store = (Inr [], one_entity_store)"
    by (simp add: mem_eval Let_def)
  note T = plural_write_no_match_404 [OF parse nonempty, of mem_model one_entity_store
                                        one_entity_store mem_respondError "[]"]
  note A = T [THEN conjunct1, THEN mp, OF post]
  note B = T [THEN conjunct2, THEN spec, THEN mp, OF put]
  have "set_toObject mem_model [] = JArr []"
    by (simp add: mem_model_def)
  with A B show ?thesis
    by simp
qed

end
